theory Spec2Isabelle
  imports Complex_Main "HOL-Library.AList"
begin

section \<open>Python values and exceptions\<close>

text \<open>
  The module \<^verbatim>\<open>caproto/threading/pyepics_compat.py\<close> is dynamically typed: the
  metadata cache \<^verbatim>\<open>PV._args\<close>, the decoded responses and the values handed to
  \<^verbatim>\<open>put\<close> hold Python objects of several types. They are embedded as one datatype.
  A numpy array carries the flag \<^verbatim>\<open>dtype.isnative\<close> and its elements. A callable
  object (a user callback) is \<open>PFunc\<close> with a tag that tells callbacks apart; \<open>PSelf\<close> is
  the handle itself where it is handed to a callback (\<^verbatim>\<open>pv=self\<close>).
\<close>

datatype ChannelType =
    ChannelType_STRING | ChannelType_INT | ChannelType_FLOAT | ChannelType_ENUM
  | ChannelType_CHAR | ChannelType_LONG | ChannelType_DOUBLE
  | ChannelType_STS_STRING | ChannelType_STS_INT | ChannelType_STS_FLOAT
  | ChannelType_STS_ENUM | ChannelType_STS_CHAR | ChannelType_STS_LONG
  | ChannelType_STS_DOUBLE
  | ChannelType_TIME_STRING | ChannelType_TIME_INT | ChannelType_TIME_FLOAT
  | ChannelType_TIME_ENUM | ChannelType_TIME_CHAR | ChannelType_TIME_LONG
  | ChannelType_TIME_DOUBLE
  | ChannelType_GR_STRING | ChannelType_GR_INT | ChannelType_GR_FLOAT
  | ChannelType_GR_ENUM | ChannelType_GR_CHAR | ChannelType_GR_LONG
  | ChannelType_GR_DOUBLE
  | ChannelType_CTRL_STRING | ChannelType_CTRL_INT | ChannelType_CTRL_FLOAT
  | ChannelType_CTRL_ENUM | ChannelType_CTRL_CHAR | ChannelType_CTRL_LONG
  | ChannelType_CTRL_DOUBLE
  | ChannelType_PUT_ACKT | ChannelType_PUT_ACKS | ChannelType_STSACK_STRING
  | ChannelType_CLASS_NAME

datatype pyval =
    PNone
  | PBool bool
  | PInt int
  | PFloat real
  | PStr string
  | PBytes string
  | PList "pyval list"
  | PTuple "pyval list"
  | PArray bool "pyval list"
  | PChannelType ChannelType
  | PFunc nat
  | PSelf

datatype exc =
    CaprotoValueError
  | CaprotoTimeoutError
  | CaprotoRuntimeError
  | CaprotoNotImplementedError
  | AccessRightsException
  | TypeError
  | IndexError
  | KeyError
  | AttributeError
  | ValueError

type_synonym pydict = "string \<rightharpoonup> pyval"

text \<open>\<^verbatim>\<open>len(x)\<close>: a scalar has no length (TypeError).\<close>

fun py_len :: "pyval \<Rightarrow> exc + nat" where
  "py_len (PStr s) = Inr (length s)"
| "py_len (PBytes s) = Inr (length s)"
| "py_len (PList xs) = Inr (length xs)"
| "py_len (PTuple xs) = Inr (length xs)"
| "py_len (PArray n xs) = Inr (length xs)"
| "py_len _ = Inl TypeError"

text \<open>\<^verbatim>\<open>for x in v\<close>: the elements of a sequence; a scalar is not iterable.\<close>

fun py_iter :: "pyval \<Rightarrow> exc + pyval list" where
  "py_iter (PList xs) = Inr xs"
| "py_iter (PTuple xs) = Inr xs"
| "py_iter (PArray n xs) = Inr xs"
| "py_iter (PStr s) = Inr (map (\<lambda>c. PStr [c]) s)"
| "py_iter (PBytes s) = Inr (map (\<lambda>c. PInt (of_char c)) s)"
| "py_iter _ = Inl TypeError"

text \<open>
  \<^verbatim>\<open>v[i]\<close> with an integer index: a negative index counts from the end, an index out of
  range raises IndexError, an index that is no integer or a value that is no sequence raises
  TypeError.
\<close>

definition py_index :: "'a list \<Rightarrow> int \<Rightarrow> exc + 'a" where
  "py_index xs i =
     (if 0 \<le> i \<and> i < int (length xs) then Inr (xs ! nat i)
      else if i < 0 \<and> - int (length xs) \<le> i then Inr (xs ! nat (int (length xs) + i))
      else Inl IndexError)"

fun py_getitem :: "pyval \<Rightarrow> pyval \<Rightarrow> exc + pyval" where
  "py_getitem (PList xs) (PInt i) = py_index xs i"
| "py_getitem (PTuple xs) (PInt i) = py_index xs i"
| "py_getitem (PArray n xs) (PInt i) = py_index xs i"
| "py_getitem (PStr s) (PInt i) = map_sum id (\<lambda>c. PStr [c]) (py_index s i)"
| "py_getitem (PBytes s) (PInt i) = map_sum id (\<lambda>c. PInt (of_char c)) (py_index s i)"
| "py_getitem _ _ = Inl TypeError"

text \<open>
  Truth value of an object. The truth value of a numpy array with more than one element is
  an error (ValueError).
\<close>

fun truthy :: "pyval \<Rightarrow> exc + bool" where
  "truthy PNone = Inr False"
| "truthy (PBool b) = Inr b"
| "truthy (PInt i) = Inr (i \<noteq> 0)"
| "truthy (PFloat r) = Inr (r \<noteq> 0)"
| "truthy (PStr s) = Inr (s \<noteq> [])"
| "truthy (PBytes s) = Inr (s \<noteq> [])"
| "truthy (PList xs) = Inr (xs \<noteq> [])"
| "truthy (PTuple xs) = Inr (xs \<noteq> [])"
| "truthy (PArray n []) = Inr False"
| "truthy (PArray n [x]) = truthy x"
| "truthy (PArray n (x # y # xs)) = Inl ValueError"
| "truthy (PChannelType t) = Inr True"
| "truthy (PFunc f) = Inr True"
| "truthy PSelf = Inr True"

text \<open>Sequencing of computations that may raise: the first exception ends the run.\<close>

definition bind :: "exc + 'a \<Rightarrow> ('a \<Rightarrow> exc + 'b) \<Rightarrow> exc + 'b" where
  "bind m f = (case m of Inl e \<Rightarrow> Inl e | Inr a \<Rightarrow> f a)"

fun mapM :: "('a \<Rightarrow> exc + 'b) \<Rightarrow> 'a list \<Rightarrow> exc + 'b list" where
  "mapM f [] = Inr []"
| "mapM f (x # xs) =
     (case f x of
        Inl e \<Rightarrow> Inl e
      | Inr y \<Rightarrow> (case mapM f xs of Inl e \<Rightarrow> Inl e | Inr ys \<Rightarrow> Inr (y # ys)))"

section \<open>The collaborators of the module\<close>

text \<open>A decoded response (\<^verbatim>\<open>command\<close>): typed data and the attributes of its DBR metadata.\<close>

record command =
  data :: pyval
  data_type :: ChannelType
  data_count :: int
  metadata :: pydict

text \<open>
  The channel object \<^verbatim>\<open>caproto_pv\<close> of the threading client, as far as the handle reads
  it: \<^verbatim>\<open>caproto_pv.connected\<close> and \<^verbatim>\<open>caproto_pv.channel\<close> with its native type, native
  count and access rights. \<^verbatim>\<open>AccessRights\<close> is a flag word: bit 0 is READ, bit 1 is WRITE.
\<close>

record channel =
  native_data_type :: ChannelType
  native_data_count :: int
  access_rights :: nat

record caproto_pv =
  cpv_connected :: bool
  cpv_channel :: "channel option"

text \<open>
  \<^verbatim>\<open>mask\<close> of the auto-monitor subscription: \<^verbatim>\<open>DEFAULT_SUBSCRIPTION_MASK\<close> or the mask the
  caller gave as \<^verbatim>\<open>auto_monitor\<close>.
\<close>

datatype sub_mask = DEFAULT_SUBSCRIPTION_MASK | Mask int

record subscription =
  sub_data_type :: pyval
  sub_data_count :: "int option"
  sub_mask :: sub_mask

text \<open>
  What the handle does to its collaborators is recorded, oldest first: the calls of the
  channel's methods with their arguments and the calls of user callbacks with their
  positional and keyword arguments. A user callback is opaque; a callback that calls back
  into the handle is outside the model.
\<close>

datatype effect =
    Eff_wait_for_connection real
  | Eff_subscribe pyval "int option" sub_mask
  | Eff_read ChannelType "int option" real
  | Eff_write pyval bool bool "real option" bool
  | Eff_go_idle
  | Eff_call pyval "pyval list" pydict

text \<open>
  The tables \<^verbatim>\<open>ca.char_types\<close>, \<^verbatim>\<open>ca.string_types\<close>, \<^verbatim>\<open>ca.enum_types\<close>,
  \<^verbatim>\<open>field_types\<close>, the constants \<^verbatim>\<open>AUTOMONITOR_MAXLENGTH\<close> and \<^verbatim>\<open>STR_ENC\<close>, the
  helper \<^verbatim>\<open>ca.epics_timestamp_to_unix\<close> and numpy's \<^verbatim>\<open>tobytes\<close> are declared outside
  this module; every function below takes them as the parameter \<open>E\<close>. The codec
  \<^verbatim>\<open>STR_ENC\<close> is given by its two directions.

  The network is a parameter too. Each answer may depend on everything the handle has done
  so far (the recorded effects):
  \<^item> \<open>chan_connect\<close>: \<^verbatim>\<open>caproto_pv.wait_for_connection(timeout)\<close> raises, or it returns and
    the notification thread has meanwhile delivered the listed connection-state changes
    (the channel object as it is then, and the state string);
  \<^item> \<open>chan_read\<close>: \<^verbatim>\<open>caproto_pv.read(data_type, data_count, timeout)\<close> raises or returns a
    decoded response;
  \<^item> \<open>chan_write\<close>: \<^verbatim>\<open>caproto_pv.write(value, wait, callback, timeout, notify)\<close> raises, or
    returns and tells whether the completion notification of the write arrives;
  \<^item> \<open>call_user\<close>: whether the call of a user callback raises.
\<close>

record env =
  char_types :: "ChannelType list"
  string_types :: "ChannelType list"
  enum_types :: "ChannelType list"
  field_types :: "string \<Rightarrow> (ChannelType \<rightharpoonup> ChannelType) option"
  AUTOMONITOR_MAXLENGTH :: int
  decode :: "string \<Rightarrow> string"
  encode :: "string \<Rightarrow> string"
  epics_timestamp_to_unix :: "pyval \<Rightarrow> pyval \<Rightarrow> pyval"
  np_tobytes :: "pyval \<Rightarrow> exc + string"
  chan_connect :: "effect list \<Rightarrow> real \<Rightarrow> exc + (caproto_pv \<times> string) list"
  chan_read :: "effect list \<Rightarrow> ChannelType \<Rightarrow> int option \<Rightarrow> real \<Rightarrow> exc + command"
  chan_write :: "effect list \<Rightarrow> pyval \<Rightarrow> bool \<Rightarrow> real option \<Rightarrow> bool \<Rightarrow> exc + bool"
  call_user :: "effect list \<Rightarrow> pyval \<Rightarrow> exc option"

text \<open>
  \<^verbatim>\<open>full_type in ca.char_types\<close> and its like: the full type is read from the cache, where
  it is \<^verbatim>\<open>None\<close> until the first connection; \<^verbatim>\<open>None\<close> is in no table.
\<close>

fun in_types :: "pyval \<Rightarrow> ChannelType list \<Rightarrow> bool" where
  "in_types (PChannelType t) ts = (t \<in> set ts)"
| "in_types _ ts = False"

section \<open>The response translator\<close>

definition arg_map :: "(string \<times> string) list" where
  "arg_map =
     [(''status'', ''status''),
      (''severity'', ''severity''),
      (''precision'', ''precision''),
      (''units'', ''units''),
      (''upper_disp_limit'', ''upper_disp_limit''),
      (''lower_disp_limit'', ''lower_disp_limit''),
      (''upper_alarm_limit'', ''upper_alarm_limit''),
      (''upper_warning_limit'', ''upper_warning_limit''),
      (''lower_warning_limit'', ''lower_warning_limit''),
      (''lower_alarm_limit'', ''lower_alarm_limit''),
      (''upper_ctrl_limit'', ''upper_ctrl_limit''),
      (''lower_ctrl_limit'', ''lower_ctrl_limit''),
      (''enum_strings'', ''enum_strs'')]"

text \<open>The loop \<^verbatim>\<open>for attr, arg in arg_map.items()\<close> of \<^verbatim>\<open>_parse_dbr_metadata\<close>.\<close>

fun copy_attrs :: "(string \<times> string) list \<Rightarrow> pydict \<Rightarrow> pydict \<Rightarrow> pydict" where
  "copy_attrs [] dbr_data ret = ret"
| "copy_attrs ((attr, arg) # rest) dbr_data ret =
     copy_attrs rest dbr_data
       (case dbr_data attr of None \<Rightarrow> ret | Some v \<Rightarrow> ret(arg \<mapsto> v))"

text \<open>\<^verbatim>\<open>k.decode(STR_ENC)\<close>: only bytes have the method.\<close>

fun decode_bytes :: "env \<Rightarrow> pyval \<Rightarrow> exc + pyval" where
  "decode_bytes E (PBytes b) = Inr (PStr (decode E b))"
| "decode_bytes E _ = Inl AttributeError"

definition get_or_None :: "pydict \<Rightarrow> string \<Rightarrow> pyval" where
  "get_or_None d k = (case d k of None \<Rightarrow> PNone | Some v \<Rightarrow> v)"

definition parse_dbr_metadata :: "env \<Rightarrow> pydict \<Rightarrow> exc + pydict" where
  "parse_dbr_metadata E dbr_data =
     (let ret = copy_attrs arg_map dbr_data Map.empty in
      bind (truthy (get_or_None ret ''enum_strs'')) (\<lambda>has_enums.
      bind (if has_enums
            then bind (py_iter (get_or_None ret ''enum_strs'')) (\<lambda>ks.
                 bind (mapM (decode_bytes E) ks) (\<lambda>ds.
                 Inr (ret(''enum_strs'' \<mapsto> PTuple ds))))
            else Inr ret) (\<lambda>ret.
      bind (if dbr_data ''nanoSeconds'' \<noteq> None
            then (case (dbr_data ''secondsSinceEpoch'', dbr_data ''nanoSeconds'') of
                    (Some secs, Some nanos) \<Rightarrow>
                      Inr (ret(''posixseconds'' \<mapsto> secs,
                               ''nanoseconds'' \<mapsto> nanos,
                               ''timestamp'' \<mapsto> epics_timestamp_to_unix E secs nanos))
                  | _ \<Rightarrow> Inl AttributeError)
            else Inr ret) (\<lambda>ret.
      (case ret ''units'' of
         None \<Rightarrow> Inr ret
       | Some u \<Rightarrow> bind (decode_bytes E u) (\<lambda>d. Inr (ret(''units'' \<mapsto> d))))))))"

definition scalarify :: "pyval \<Rightarrow> ChannelType \<Rightarrow> int \<Rightarrow> exc + pyval" where
  "scalarify dat ntype count =
     (if count = 1 \<and> ntype \<notin> set [ChannelType_CHAR, ChannelType_STRING]
      then py_getitem dat (PInt 0)
      else Inr dat)"

text \<open>
  One element of the comprehension
  \<^verbatim>\<open>[enum_strings[idx] if 0 <= idx < len(enum_strings) else '' for idx in value]\<close>.
\<close>

fun enum_lookup :: "pyval \<Rightarrow> pyval \<Rightarrow> exc + pyval" where
  "enum_lookup enum_strings (PInt idx) =
     (if 0 \<le> idx
      then bind (py_len enum_strings) (\<lambda>n.
           if idx < int n then py_getitem enum_strings (PInt idx) else Inr (PStr ''''))
      else Inr (PStr ''''))"
| "enum_lookup enum_strings (PFloat idx) =
     (if 0 \<le> idx
      then bind (py_len enum_strings) (\<lambda>n.
           if idx < real n then Inl TypeError else Inr (PStr ''''))
      else Inr (PStr ''''))"
| "enum_lookup enum_strings _ = Inl TypeError"

text \<open>\<^verbatim>\<open>if len(x) == 1: x = x[0]\<close> on a list the translator has just built.\<close>

definition unwrap_single :: "pyval list \<Rightarrow> pyval" where
  "unwrap_single xs = (case xs of [x] \<Rightarrow> x | _ \<Rightarrow> PList xs)"

definition read_response_to_pyepics ::
  "env \<Rightarrow> pyval \<Rightarrow> command \<Rightarrow> pyval \<Rightarrow> exc + pydict" where
  "read_response_to_pyepics E full_type cmd enum_strings =
     bind (parse_dbr_metadata E (metadata cmd)) (\<lambda>info.
     let v = data cmd;
         info = info(''raw_value'' \<mapsto> v) in
     bind (scalarify v (data_type cmd) (data_count cmd)) (\<lambda>sv.
     let info = info(''value'' \<mapsto> sv) in
     if in_types full_type (char_types E) then
       bind (np_tobytes E v) (\<lambda>bs.
       Inr (info(''char_value'' \<mapsto> PStr (decode E (takeWhile (\<lambda>c. c \<noteq> CHR 0x00) bs)))))
     else if in_types full_type (string_types E) then
       bind (py_iter v) (\<lambda>vs.
       bind (mapM (decode_bytes E) vs) (\<lambda>ds.
       let v = unwrap_single ds in
       Inr (info(''value'' \<mapsto> v, ''char_value'' \<mapsto> v))))
     else if in_types full_type (enum_types E) then
       bind (truthy (get_or_None info ''enum_strs'')) (\<lambda>has_enums.
       let enum_strings = (if has_enums then get_or_None info ''enum_strs'' else enum_strings) in
       bind (if enum_strings = PNone
             then bind (py_len v) (\<lambda>n. Inr (replicate n PNone))
             else bind (py_iter v) (\<lambda>idxs. mapM (enum_lookup enum_strings) idxs))
         (\<lambda>char_value.
       Inr (info(''char_value'' \<mapsto> unwrap_single char_value))))
     else Inr (info(''char_value'' \<mapsto> PNone))))"

section \<open>Value coercion\<close>

text \<open>\<^verbatim>\<open>value.tolist()\<close>: a method of numpy arrays only.\<close>

fun tolist :: "pyval \<Rightarrow> exc + pyval list" where
  "tolist (PArray n xs) = Inr xs"
| "tolist _ = Inl AttributeError"

text \<open>\<^verbatim>\<open>try: ret.append(enum_strings[r]) except IndexError: ret.append('')\<close>.\<close>

definition enum_name :: "pyval \<Rightarrow> pyval \<Rightarrow> exc + pyval" where
  "enum_name enum_strings r =
     (case py_getitem enum_strings r of
        Inl IndexError \<Rightarrow> Inr (PStr '''')
      | Inl e \<Rightarrow> Inl e
      | Inr s \<Rightarrow> Inr s)"

text \<open>
  The tail of \<^verbatim>\<open>_pyepics_get_value\<close>: an array that is not in native byte order is
  swapped; the elements stay the same. Only an array has a \<^verbatim>\<open>dtype\<close>.
\<close>

fun to_native :: "pyval \<Rightarrow> exc + pyval" where
  "to_native (PArray n xs) = Inr (PArray True xs)"
| "to_native _ = Inl AttributeError"

text \<open>\<^verbatim>\<open>native_count == 1\<close>: equality of a Python number with the integer 1.\<close>

fun py_eq_1 :: "pyval \<Rightarrow> bool" where
  "py_eq_1 (PInt i) = (i = 1)"
| "py_eq_1 (PFloat r) = (r = 1)"
| "py_eq_1 (PBool b) = b"
| "py_eq_1 _ = False"

text \<open>
  The branches of \<^verbatim>\<open>_pyepics_get_value\<close> below its two string branches: the raw value,
  as a scalar, a list or an array.
\<close>

definition raw_value_path :: "pyval \<Rightarrow> pyval \<Rightarrow> int option \<Rightarrow> bool \<Rightarrow> exc + pyval" where
  "raw_value_path v native_count requested_count as_numpy =
     bind (if py_eq_1 native_count then bind (py_len v) (\<lambda>n. Inr (n = 1)) else Inr False)
       (\<lambda>single.
        if single then
          (if requested_count = None
           then bind (tolist v) (\<lambda>xs. py_index xs 0)
           else Inr v)
        else if \<not> as_numpy then bind (tolist v) (\<lambda>xs. Inr (PList xs))
        else to_native v)"

definition pyepics_get_value ::
  "env \<Rightarrow> pyval \<Rightarrow> pyval \<Rightarrow> pyval \<Rightarrow> pyval \<Rightarrow> int option \<Rightarrow> pyval \<Rightarrow> bool \<Rightarrow> bool
     \<Rightarrow> exc + pyval" where
  "pyepics_get_value E v string_value full_type native_count requested_count enum_strings
       as_string as_numpy =
     (if (as_string \<and> in_types full_type (char_types E)) \<or> in_types full_type (string_types E)
      then Inr string_value
      else if as_string \<and> in_types full_type (enum_types E) then
        (if enum_strings = PNone then Inl CaprotoValueError
         else bind (py_iter v) (\<lambda>rs.
              bind (mapM (enum_name enum_strings) rs) (\<lambda>ret.
              Inr (unwrap_single ret))))
      else raw_value_path v native_count requested_count as_numpy)"

section \<open>The PV handle\<close>

text \<open>
  \<^verbatim>\<open>auto_monitor\<close> is \<^verbatim>\<open>None\<close>, a boolean or an event mask; \<open>am_truthy\<close> is its truth
  value.
\<close>

datatype auto_monitor_policy = AM_None | AM_Bool bool | AM_Mask int

fun am_truthy :: "auto_monitor_policy \<Rightarrow> bool" where
  "am_truthy AM_None = False"
| "am_truthy (AM_Bool b) = b"
| "am_truthy (AM_Mask m) = (m \<noteq> 0)"

text \<open>
  The attributes of a \<^verbatim>\<open>PV\<close> object. \<open>p_connected\<close> is \<^verbatim>\<open>_connected\<close>, \<open>connect_event\<close>
  is whether \<^verbatim>\<open>_connect_event\<close> is set, \<open>args\<close> is the metadata cache \<^verbatim>\<open>_args\<close>,
  \<open>cb_count\<close> is the next value of the counter \<^verbatim>\<open>_cb_count\<close>, \<open>callbacks\<close> is the
  dictionary of user callbacks in insertion order, \<open>caproto_pv\<close> is the channel object
  as the handle last saw it, and \<open>trace\<close> records the effects of the handle.
\<close>

record PV =
  pvname :: string
  form :: string
  verbose :: bool
  auto_monitor :: auto_monitor_policy
  ftype :: pyval
  p_connected :: bool
  connect_event :: bool
  connection_timeout :: real
  default_count :: "int option"
  auto_monitor_sub :: "subscription option"
  args :: pydict
  connection_callbacks :: "pyval list"
  cb_count :: nat
  access_callbacks :: "pyval list"
  callbacks :: "(nat \<times> pyval \<times> pydict) list"
  conn_started :: bool
  caproto_pv :: caproto_pv
  trace :: "effect list"

type_synonym 'a result = "(exc + 'a) \<times> PV"

definition fields :: "string list" where
  "fields =
     [''pvname'', ''value'', ''char_value'', ''status'', ''ftype'', ''chid'',
      ''host'', ''count'', ''access'', ''write_access'', ''read_access'',
      ''severity'', ''timestamp'', ''posixseconds'', ''nanoseconds'',
      ''precision'', ''units'', ''enum_strs'',
      ''upper_disp_limit'', ''lower_disp_limit'', ''upper_alarm_limit'',
      ''lower_alarm_limit'', ''lower_warning_limit'',
      ''upper_warning_limit'', ''upper_ctrl_limit'', ''lower_ctrl_limit'',
      ''put_complete'']"

text \<open>\<^verbatim>\<open>d[k]\<close> on a dictionary.\<close>

definition py_lookup :: "pydict \<Rightarrow> string \<Rightarrow> exc + pyval" where
  "py_lookup d k = (case d k of None \<Rightarrow> Inl KeyError | Some v \<Rightarrow> Inr v)"

fun callable :: "pyval \<Rightarrow> bool" where
  "callable (PFunc f) = True"
| "callable _ = False"

text \<open>
  The call of a user callback: the call is recorded and the environment tells whether it
  raises. Calling an object that is not callable raises TypeError.
\<close>

definition invoke :: "env \<Rightarrow> pyval \<Rightarrow> pyval list \<Rightarrow> pydict \<Rightarrow> PV \<Rightarrow> unit result" where
  "invoke E f ps kw self =
     (if callable f then
        (let s = self\<lparr>trace := trace self @ [Eff_call f ps kw]\<rparr>
         in (case call_user E (trace s) f of None \<Rightarrow> Inr () | Some e \<Rightarrow> Inl e, s))
      else (Inl TypeError, self))"

text \<open>The property \<^verbatim>\<open>PV.connected\<close>.\<close>

definition connected :: "PV \<Rightarrow> bool" where
  "connected self = (cpv_connected (caproto_pv self) \<and> connect_event self)"

definition access_strs :: "string list" where
  "access_strs = [''no access'', ''read-only'', ''write-only'', ''read/write'']"

text \<open>
  The loop over \<^verbatim>\<open>self.access_callbacks\<close>: an exception of a callback is caught and
  dropped.
\<close>

fun call_access_callbacks :: "env \<Rightarrow> pyval list \<Rightarrow> bool \<Rightarrow> bool \<Rightarrow> PV \<Rightarrow> PV" where
  "call_access_callbacks E [] read_access write_access self = self"
| "call_access_callbacks E (cb # cbs) read_access write_access self =
     call_access_callbacks E cbs read_access write_access
       (snd (invoke E cb [PBool read_access, PBool write_access] [''pv'' \<mapsto> PSelf] self))"

definition access_rights_changed :: "env \<Rightarrow> caproto_pv \<Rightarrow> nat \<Rightarrow> PV \<Rightarrow> unit result" where
  "access_rights_changed E cpv ar self =
     (let s = self\<lparr>caproto_pv := cpv\<rparr>;
          read_access = (ar mod 2 = 1);
          write_access = ((ar div 2) mod 2 = 1)
      in if ar < length access_strs then
           (Inr (),
            call_access_callbacks E (access_callbacks s) read_access write_access
              (s\<lparr>args := (args s)(''write_access'' \<mapsto> PBool write_access,
                                 ''read_access'' \<mapsto> PBool read_access,
                                 ''access'' \<mapsto> PStr (access_strs ! ar))\<rparr>))
         else (Inl IndexError, s))"

text \<open>
  \<^verbatim>\<open>_check_auto_monitor_sub\<close>: the subscription object is created by the channel and is
  kept by the handle.
\<close>

definition check_auto_monitor_sub :: "int option \<Rightarrow> PV \<Rightarrow> unit result" where
  "check_auto_monitor_sub count' self =
     (if am_truthy (auto_monitor self) \<and> auto_monitor_sub self = None then
        (let count = (case count' of None \<Rightarrow> default_count self | Some c \<Rightarrow> Some c);
             mask = (case auto_monitor self of
                       AM_Mask m \<Rightarrow> Mask m
                     | _ \<Rightarrow> DEFAULT_SUBSCRIPTION_MASK)
         in case py_lookup (args self) ''typefull'' of
              Inl e \<Rightarrow> (Inl e, self)
            | Inr tf \<Rightarrow>
                (Inr (),
                 self\<lparr>auto_monitor_sub :=
                        Some \<lparr>sub_data_type = tf, sub_data_count = count, sub_mask = mask\<rparr>,
                      trace := trace self @ [Eff_subscribe tf count mask]\<rparr>))
      else (Inr (), self))"

definition connection_established :: "env \<Rightarrow> PV \<Rightarrow> unit result" where
  "connection_established E self =
     (case cpv_channel (caproto_pv self) of
        None \<Rightarrow> (Inr (), self)
      | Some ch \<Rightarrow>
          (let count = default_count self;
               type_key = (if form self = ''ctrl'' then ''control'' else form self)
           in case field_types E type_key of
                None \<Rightarrow> (Inl KeyError, self)
              | Some tbl \<Rightarrow>
                  (case tbl (native_data_type ch) of
                     None \<Rightarrow> (Inl KeyError, self)
                   | Some tf \<Rightarrow>
                       (let s = self\<lparr>args := (args self)
                                  (''type'' \<mapsto> PChannelType (native_data_type ch),
                                   ''typefull'' \<mapsto> PChannelType tf,
                                   ''nelm'' \<mapsto> PInt (native_data_count ch),
                                   ''count'' \<mapsto> PInt (native_data_count ch))\<rparr>
                        in case access_rights_changed E (caproto_pv s) (access_rights ch) s of
                             (Inl e, s) \<Rightarrow> (Inl e, s)
                           | (Inr _, s) \<Rightarrow>
                               (let s = (if auto_monitor s = AM_None
                                         then s\<lparr>auto_monitor := AM_Bool
                                                ((case count of
                                                    None \<Rightarrow> native_data_count ch
                                                  | Some c \<Rightarrow> c) < AUTOMONITOR_MAXLENGTH E)\<rparr>
                                         else s)
                                in case check_auto_monitor_sub None s of
                                     (Inl e, s) \<Rightarrow> (Inl e, s)
                                   | (Inr _, s) \<Rightarrow> (Inr (), s\<lparr>p_connected := True\<rparr>))))))"

text \<open>
  The loop over \<^verbatim>\<open>self.connection_callbacks\<close>: an exception of a callback ends the loop
  and propagates.
\<close>

fun call_connection_callbacks :: "env \<Rightarrow> pyval list \<Rightarrow> bool \<Rightarrow> PV \<Rightarrow> unit result" where
  "call_connection_callbacks E [] conn self = (Inr (), self)"
| "call_connection_callbacks E (cb # cbs) conn self =
     (case invoke E cb []
             [''pvname'' \<mapsto> PStr (pvname self), ''conn'' \<mapsto> PBool conn, ''pv'' \<mapsto> PSelf] self of
        (Inl e, s) \<Rightarrow> (Inl e, s)
      | (Inr _, s) \<Rightarrow> call_connection_callbacks E cbs conn s)"

text \<open>
  \<^verbatim>\<open>_connection_state_changed\<close>: the connect event is set in the \<^verbatim>\<open>finally\<close> clause,
  whether \<^verbatim>\<open>_connection_established\<close> returns or raises; an exception is raised again
  and the connection callbacks are not run.
\<close>

definition connection_state_changed :: "env \<Rightarrow> caproto_pv \<Rightarrow> string \<Rightarrow> PV \<Rightarrow> unit result" where
  "connection_state_changed E cpv state self =
     (let s = self\<lparr>caproto_pv := cpv\<rparr>;
          conn = (state = ''connected'');
          (r, s) = (if conn then connection_established E s else (Inr (), s));
          s = (if conn then s\<lparr>connect_event := True\<rparr> else s)
      in case r of
           Inl e \<Rightarrow> (Inl e, s)
         | Inr _ \<Rightarrow> call_connection_callbacks E (connection_callbacks s) conn s)"

text \<open>\<^verbatim>\<open>_connection_closed\<close>; nothing in the module calls it.\<close>

definition connection_closed :: "PV \<Rightarrow> PV" where
  "connection_closed self = self\<lparr>p_connected := False\<rparr>"

text \<open>\<^verbatim>\<open>str.strip()\<close> and \<^verbatim>\<open>str.lower()\<close> on characters with codes below 256.\<close>

definition is_space :: "char \<Rightarrow> bool" where
  "is_space c = (of_char c \<in> set [9, 10, 11, 12, 13, 28, 29, 30, 31, 32, 133, 160 :: nat])"

definition py_strip :: "string \<Rightarrow> string" where
  "py_strip s = rev (dropWhile is_space (rev (dropWhile is_space s)))"

definition lower_char :: "char \<Rightarrow> char" where
  "lower_char c =
     (let n = (of_char c :: nat)
      in if (65 \<le> n \<and> n \<le> 90) \<or> (192 \<le> n \<and> n \<le> 222 \<and> n \<noteq> 215)
         then char_of (n + 32) else c)"

definition py_lower :: "string \<Rightarrow> string" where
  "py_lower s = map lower_char s"

text \<open>The callbacks the constructor registers: the callable ones, under their position.\<close>

definition init_callbacks :: "pyval \<Rightarrow> (nat \<times> pyval \<times> pydict) list" where
  "init_callbacks callback =
     (case callback of
        PTuple cbs \<Rightarrow>
          map (\<lambda>(i, cb). (i, cb, Map.empty)) (filter (\<lambda>(i, cb). callable cb) (enumerate 0 cbs))
      | PList cbs \<Rightarrow>
          map (\<lambda>(i, cb). (i, cb, Map.empty)) (filter (\<lambda>(i, cb). callable cb) (enumerate 0 cbs))
      | PFunc f \<Rightarrow> [(0, PFunc f, Map.empty)]
      | _ \<Rightarrow> [])"

text \<open>
  \<^verbatim>\<open>PV.__init__\<close>. The context and the channel it hands out (\<^verbatim>\<open>context.get_pvs\<close>) are
  outside the module: \<open>cpv\<close> is the channel object the context returns.
\<close>

definition PV_init ::
  "env \<Rightarrow> string \<Rightarrow> pyval \<Rightarrow> string \<Rightarrow> bool \<Rightarrow> auto_monitor_policy \<Rightarrow> int option \<Rightarrow> pyval
     \<Rightarrow> real option \<Rightarrow> pyval \<Rightarrow> caproto_pv \<Rightarrow> unit result" where
  "PV_init E pvname' callback form' verbose' auto_monitor' count connection_callback
       connection_timeout' access_callback cpv =
     (let self =
        \<lparr>pvname = py_strip pvname',
         form = py_lower form',
         verbose = verbose',
         auto_monitor = auto_monitor',
         ftype = PNone,
         p_connected = False,
         connect_event = False,
         connection_timeout = (case connection_timeout' of None \<Rightarrow> 1 | Some t \<Rightarrow> t),
         default_count = count,
         auto_monitor_sub = None,
         args = (map_of (map (\<lambda>k. (k, PNone)) fields))
                  (''pvname'' \<mapsto> PStr (py_strip pvname'),
                   ''count'' \<mapsto> (case count of None \<Rightarrow> PNone | Some c \<Rightarrow> PInt c),
                   ''nelm'' \<mapsto> PInt (- 1),
                   ''type'' \<mapsto> PNone,
                   ''typefull'' \<mapsto> PNone,
                   ''access'' \<mapsto> PNone),
         connection_callbacks =
           (if connection_callback = PNone then [] else [connection_callback]),
         cb_count = 0,
         access_callbacks = (if access_callback = PNone then [] else [access_callback]),
         callbacks = init_callbacks callback,
         conn_started = False,
         caproto_pv = cpv,
         trace = []\<rparr>
      in if cpv_connected cpv then connection_state_changed E cpv ''connected'' self
         else (Inr (), self))"

text \<open>
  The notification thread runs \<^verbatim>\<open>_connection_state_changed\<close> for every connection-state
  change the channel reports; an exception there does not reach the caller that waits.
\<close>

fun deliver :: "env \<Rightarrow> (caproto_pv \<times> string) list \<Rightarrow> PV \<Rightarrow> PV" where
  "deliver E [] self = self"
| "deliver E ((cpv, state) # ns) self =
     deliver E ns (snd (connection_state_changed E cpv state self))"

text \<open>
  \<^verbatim>\<open>wait_for_connection\<close>: the two blocking calls (on the channel and on the connect
  event) are answered by the environment.
\<close>

definition wait_for_connection :: "env \<Rightarrow> real option \<Rightarrow> PV \<Rightarrow> bool result" where
  "wait_for_connection E timeout' self =
     (let timeout = (case timeout' of None \<Rightarrow> connection_timeout self | Some t \<Rightarrow> t)
      in if connected self then (Inr True, self)
         else
           (let s = self\<lparr>connect_event := False\<rparr>;
                s = s\<lparr>trace := trace s @ [Eff_wait_for_connection timeout]\<rparr>
            in case chan_connect E (trace s) timeout of
                 Inl e \<Rightarrow> (Inl e, s)
               | Inr notes \<Rightarrow>
                   (let s = deliver E notes s
                    in if connect_event s \<and> connected s then (Inr True, s)
                       else (Inl CaprotoTimeoutError, s))))"

text \<open>\<^verbatim>\<open>connect\<close> and \<^verbatim>\<open>reconnect\<close>.\<close>

definition connect :: "env \<Rightarrow> real option \<Rightarrow> PV \<Rightarrow> unit result" where
  "connect E timeout' self =
     (case wait_for_connection E timeout' self of
        (Inl e, s) \<Rightarrow> (Inl e, s)
      | (Inr _, s) \<Rightarrow> (Inr (), s))"

definition reconnect :: "PV \<Rightarrow> bool" where
  "reconnect self = True"

section \<open>Reading: the cache and the on-demand read\<close>

text \<open>\<^verbatim>\<open>self._caproto_pv.read(...)\<close>: the request is recorded, the environment answers.\<close>

definition do_read :: "env \<Rightarrow> ChannelType \<Rightarrow> int option \<Rightarrow> real \<Rightarrow> PV \<Rightarrow> command result" where
  "do_read E dt count timeout self =
     (let s = self\<lparr>trace := trace self @ [Eff_read dt count timeout]\<rparr>
      in (chan_read E (trace s) dt count timeout, s))"

definition read_and_update :: "env \<Rightarrow> ChannelType \<Rightarrow> real \<Rightarrow> PV \<Rightarrow> (command \<times> pydict) result" where
  "read_and_update E dtype timeout self =
     (case do_read E dtype None timeout self of
        (Inl e, s) \<Rightarrow> (Inl e, s)
      | (Inr cmd, s) \<Rightarrow>
          (case py_lookup (args s) ''enum_strs'' of
             Inl e \<Rightarrow> (Inl e, s)
           | Inr enum_strings \<Rightarrow>
               (case read_response_to_pyepics E (PChannelType dtype) cmd enum_strings of
                  Inl e \<Rightarrow> (Inl e, s)
                | Inr info \<Rightarrow> (Inr (cmd, info), s\<lparr>args := args s ++ info\<rparr>))))"

text \<open>\<^verbatim>\<open>field_types[key][self.type]\<close>.\<close>

definition field_type :: "env \<Rightarrow> string \<Rightarrow> PV \<Rightarrow> exc + ChannelType" where
  "field_type E key self =
     (case field_types E key of
        None \<Rightarrow> Inl KeyError
      | Some tbl \<Rightarrow>
          bind (py_lookup (args self) ''type'') (\<lambda>t.
          case t of
            PChannelType nt \<Rightarrow> (case tbl nt of None \<Rightarrow> Inl KeyError | Some dt \<Rightarrow> Inr dt)
          | _ \<Rightarrow> Inl KeyError))"

text \<open>
  The decorator \<^verbatim>\<open>ensure_connection\<close> waits for the connection first, with the keyword
  argument \<^verbatim>\<open>timeout\<close> of the call, or 5.0 when the call has none.
\<close>

definition force_read_access_rights :: "env \<Rightarrow> PV \<Rightarrow> unit result" where
  "force_read_access_rights E self =
     (case wait_for_connection E (Some 5) self of
        (Inl e, s) \<Rightarrow> (Inl e, s)
      | (Inr _, s) \<Rightarrow>
          (case cpv_channel (caproto_pv s) of
             None \<Rightarrow> (Inl AttributeError, s)
           | Some ch \<Rightarrow> access_rights_changed E (caproto_pv s) (access_rights ch) s))"

definition get_ctrlvars :: "env \<Rightarrow> real option \<Rightarrow> PV \<Rightarrow> pydict result" where
  "get_ctrlvars E timeout' self =
     (case wait_for_connection E (Some (case timeout' of None \<Rightarrow> 5 | Some t \<Rightarrow> t)) self of
        (Inl e, s) \<Rightarrow> (Inl e, s)
      | (Inr _, s) \<Rightarrow>
          (case field_type E ''control'' s of
             Inl e \<Rightarrow> (Inl e, s)
           | Inr dtype \<Rightarrow>
               (case read_and_update E dtype (case timeout' of None \<Rightarrow> 5 | Some t \<Rightarrow> t) s of
                  (Inl e, s) \<Rightarrow> (Inl e, s)
                | (Inr (cmd, info), s) \<Rightarrow>
                    (case force_read_access_rights E s of
                       (Inl e, s) \<Rightarrow> (Inl e, s)
                     | (Inr _, s) \<Rightarrow> (Inr info, s)))))"

definition get_timevars :: "env \<Rightarrow> real option \<Rightarrow> PV \<Rightarrow> pydict result" where
  "get_timevars E timeout' self =
     (case wait_for_connection E (Some (case timeout' of None \<Rightarrow> 5 | Some t \<Rightarrow> t)) self of
        (Inl e, s) \<Rightarrow> (Inl e, s)
      | (Inr _, s) \<Rightarrow>
          (case field_type E ''time'' s of
             Inl e \<Rightarrow> (Inl e, s)
           | Inr dtype \<Rightarrow>
               (case read_and_update E dtype (case timeout' of None \<Rightarrow> 5 | Some t \<Rightarrow> t) s of
                  (Inl e, s) \<Rightarrow> (Inl e, s)
                | (Inr (cmd, info), s) \<Rightarrow> (Inr info, s))))"

text \<open>
  The condition of \<^verbatim>\<open>get_with_metadata\<close> under which it goes out to the network, with
  Python's evaluation order: \<^verbatim>\<open>len(cached_value)\<close> is evaluated only when the three
  disjuncts before it are false and a count is requested.
\<close>

definition read_required :: "bool \<Rightarrow> subscription option \<Rightarrow> pyval \<Rightarrow> int option \<Rightarrow> exc + bool" where
  "read_required use_monitor sub cached_value count =
     (if \<not> use_monitor \<or> sub = None \<or> cached_value = PNone then Inr True
      else case count of
             None \<Rightarrow> Inr False
           | Some c \<Rightarrow> bind (py_len cached_value) (\<lambda>n. Inr (c > int n)))"

definition re_map :: "ChannelType \<rightharpoonup> ChannelType" where
  "re_map =
     [ChannelType_CHAR \<mapsto> ChannelType_INT,
      ChannelType_CTRL_CHAR \<mapsto> ChannelType_CTRL_INT,
      ChannelType_TIME_CHAR \<mapsto> ChannelType_TIME_INT,
      ChannelType_STS_CHAR \<mapsto> ChannelType_STS_INT]"

text \<open>
  \<^verbatim>\<open>arg in ('status', 'severity', 'timestamp', 'posixseconds', 'nanoseconds')\<close> of
  \<^verbatim>\<open>_getarg\<close>.
\<close>

definition time_args :: "string list" where
  "time_args = [''status'', ''severity'', ''timestamp'', ''posixseconds'', ''nanoseconds'']"

text \<open>
  Three blocks of the body of \<^verbatim>\<open>get_with_metadata\<close>. \<open>forced_type\<close>: character data
  that is not asked for as a string is read with the integer type code, and
  \<^verbatim>\<open>use_monitor\<close> is set to false. \<open>read_step\<close>: the block under the comment
  \<^verbatim>\<open>trigger going out to got data from network\<close>, which reads from the channel when the
  condition holds and merges the translated response into the cache and into \<^verbatim>\<open>md\<close>.
  \<open>coerce_step\<close>: the final \<^verbatim>\<open>md['value'] = _pyepics_get_value(...)\<close>.
\<close>

definition forced_type :: "env \<Rightarrow> bool \<Rightarrow> bool \<Rightarrow> ChannelType \<Rightarrow> exc + (ChannelType \<times> bool)" where
  "forced_type E as_string use_monitor dt =
     (if \<not> as_string \<and> dt \<in> set (char_types E)
      then (case re_map dt of None \<Rightarrow> Inl KeyError | Some dt' \<Rightarrow> Inr (dt', False))
      else Inr (dt, use_monitor))"

definition read_step ::
  "env \<Rightarrow> ChannelType \<Rightarrow> int option \<Rightarrow> real \<Rightarrow> bool \<Rightarrow> pydict \<Rightarrow> PV \<Rightarrow> pydict result" where
  "read_step E dt count timeout use_monitor md self =
     (case py_lookup (args self) ''value'' of
        Inl e \<Rightarrow> (Inl e, self)
      | Inr cached_value \<Rightarrow>
          (case read_required use_monitor (auto_monitor_sub self) cached_value count of
             Inl e \<Rightarrow> (Inl e, self)
           | Inr required \<Rightarrow>
               if required then
                 (case do_read E dt count timeout self of
                    (Inl e, s) \<Rightarrow> (Inl e, s)
                  | (Inr cmd, s) \<Rightarrow>
                      (case bind (py_lookup (args s) ''typefull'') (\<lambda>tf.
                            bind (py_lookup (args s) ''enum_strs'') (\<lambda>es.
                            read_response_to_pyepics E tf cmd es)) of
                         Inl e \<Rightarrow> (Inl e, s)
                       | Inr response \<Rightarrow>
                           (Inr (md ++ response), s\<lparr>args := args s ++ response\<rparr>)))
               else (Inr md, self)))"

definition coerce_step ::
  "env \<Rightarrow> pydict \<Rightarrow> int option \<Rightarrow> pyval \<Rightarrow> bool \<Rightarrow> bool \<Rightarrow> PV \<Rightarrow> pydict result" where
  "coerce_step E md count enum_strs as_string as_numpy self =
     (case bind (py_lookup md ''raw_value'') (\<lambda>rv.
           bind (py_lookup md ''char_value'') (\<lambda>cv.
           bind (py_lookup (args self) ''typefull'') (\<lambda>tf.
           bind (py_lookup (args self) ''count'') (\<lambda>nc.
           pyepics_get_value E rv cv tf nc count enum_strs as_string as_numpy)))) of
        Inl e \<Rightarrow> (Inl e, self)
      | Inr v \<Rightarrow> (Inr (md(''value'' \<mapsto> v)), self))"

text \<open>
  The first lines of the body of \<^verbatim>\<open>get_with_metadata\<close>: the defaults of \<^verbatim>\<open>form\<close>,
  \<^verbatim>\<open>count\<close> and \<^verbatim>\<open>timeout\<close>, and \<^verbatim>\<open>type_key\<close>.
\<close>

definition resolve_count :: "int option \<Rightarrow> PV \<Rightarrow> int option" where
  "resolve_count count' self = (case count' of None \<Rightarrow> default_count self | Some c \<Rightarrow> Some c)"

definition resolve_timeout :: "real option option \<Rightarrow> int option \<Rightarrow> real" where
  "resolve_timeout timeout' count =
     (case timeout' of
        Some (Some t) \<Rightarrow> t
      | _ \<Rightarrow> (case count of None \<Rightarrow> 1 | Some c \<Rightarrow> 1 + log 10 (real_of_int (max 1 c))))"

definition type_key_of :: "string option \<Rightarrow> PV \<Rightarrow> string" where
  "type_key_of form' self =
     (let fm = (case form' of None \<Rightarrow> form self | Some f \<Rightarrow> f)
      in if fm = ''ctrl'' then ''control'' else fm)"

text \<open>
  \<^verbatim>\<open>get_with_metadata\<close> (with its decorator) and \<^verbatim>\<open>_getarg\<close> call each other: reading a
  property such as \<^verbatim>\<open>self.enum_strs\<close> is \<^verbatim>\<open>_getarg('enum_strs')\<close>, which calls
  \<^verbatim>\<open>self.get()\<close>, that is \<^verbatim>\<open>get_with_metadata\<close> with \<^verbatim>\<open>as_string=False\<close>,
  \<^verbatim>\<open>with_ctrlvars=False\<close> and \<^verbatim>\<open>form=self.form\<close>. The keyword argument \<^verbatim>\<open>timeout\<close> is
  \<open>None\<close> when the call has none, \<open>Some None\<close> for \<^verbatim>\<open>timeout=None\<close>. The result is the
  dictionary \<^verbatim>\<open>md\<close>; \<^verbatim>\<open>as_namespace\<close> only wraps it.
\<close>

function get_with_metadata ::
  "env \<Rightarrow> int option \<Rightarrow> bool \<Rightarrow> bool \<Rightarrow> real option option \<Rightarrow> bool \<Rightarrow> bool \<Rightarrow> string option
     \<Rightarrow> bool \<Rightarrow> PV \<Rightarrow> pydict result"
  and getarg :: "env \<Rightarrow> string \<Rightarrow> PV \<Rightarrow> pyval result" where
  "get_with_metadata E count' as_string as_numpy timeout' with_ctrlvars use_monitor' form'
       as_namespace self =
     (case wait_for_connection E (case timeout' of None \<Rightarrow> Some 5 | Some t \<Rightarrow> t) self of
        (Inl e, s) \<Rightarrow> (Inl e, s)
      | (Inr _, s) \<Rightarrow>
          (let count = resolve_count count' s;
               timeout = resolve_timeout timeout' count;
               type_key = type_key_of form' s
           in case (if with_ctrlvars \<and> type_key \<notin> set [''control'', ''native'']
                    then get_with_metadata E count as_string as_numpy (Some (Some timeout))
                           False use_monitor' (Some ''control'') False s
                    else if use_monitor' then (Inr (args s), s)
                    else (Inr Map.empty, s)) of
                (Inl e, s) \<Rightarrow> (Inl e, s)
              | (Inr md, s) \<Rightarrow>
                  (case bind (field_type E type_key s) (forced_type E as_string use_monitor') of
                     Inl e \<Rightarrow> (Inl e, s)
                   | Inr (dt, use_monitor) \<Rightarrow>
                       (case read_step E dt count timeout use_monitor md s of
                          (Inl e, s) \<Rightarrow> (Inl e, s)
                        | (Inr md, s) \<Rightarrow>
                            (case py_lookup (args s) ''typefull'' of
                               Inl e \<Rightarrow> (Inl e, s)
                             | Inr tf \<Rightarrow>
                                 (case (if as_string \<and> in_types tf (enum_types E)
                                        then getarg E ''enum_strs'' s
                                        else (Inr PNone, s)) of
                                    (Inl e, s) \<Rightarrow> (Inl e, s)
                                  | (Inr enum_strs, s) \<Rightarrow>
                                      coerce_step E md count enum_strs as_string as_numpy
                                        s))))))"
| "getarg E arg self =
     (case py_lookup (args self) ''value'' of
        Inl e \<Rightarrow> (Inl e, self)
      | Inr v \<Rightarrow>
          (case (if v = PNone
                 then get_with_metadata E None False True (Some None) False True
                        (Some (form self)) False self
                 else (Inr Map.empty, self)) of
             (Inl e, s) \<Rightarrow> (Inl e, s)
           | (Inr _, s) \<Rightarrow>
               (case py_lookup (args s) arg of
                  Inl e \<Rightarrow> (Inl e, s)
                | Inr a \<Rightarrow>
                    (case (if a = PNone \<and> connected s
                           then (if arg \<in> set time_args then get_timevars E None s
                                 else get_ctrlvars E None s)
                           else (Inr Map.empty, s)) of
                       (Inl e, s) \<Rightarrow> (Inl e, s)
                     | (Inr _, s) \<Rightarrow> (Inr (get_or_None (args s) arg), s)))))"
  by pat_completeness auto
termination
  by (relation "measure (\<lambda>x. case x of
         Inl (E, count', as_string, as_numpy, timeout', with_ctrlvars, rest) \<Rightarrow>
           2 * (if as_string then 1 else 0) + (if with_ctrlvars then 1 else 0)
       | Inr (E, arg, self) \<Rightarrow> 1)") auto

declare get_with_metadata.simps [simp del] getarg.simps [simp del]

text \<open>
  The block of \<^verbatim>\<open>get_with_metadata\<close> that sets \<^verbatim>\<open>md\<close> before the decision to read:
  with \<^verbatim>\<open>with_ctrlvars\<close> on a handle whose form is neither control nor native it is the
  result of the same call in control form, else a copy of the cache or an empty
  dictionary.
\<close>

definition md_step ::
  "env \<Rightarrow> int option \<Rightarrow> bool \<Rightarrow> bool \<Rightarrow> real option option \<Rightarrow> bool \<Rightarrow> bool \<Rightarrow> string option
     \<Rightarrow> PV \<Rightarrow> pydict result" where
  "md_step E count' as_string as_numpy timeout' with_ctrlvars use_monitor' form' self =
     (let count = resolve_count count' self;
          timeout = resolve_timeout timeout' count;
          type_key = type_key_of form' self
      in if with_ctrlvars \<and> type_key \<notin> set [''control'', ''native'']
         then get_with_metadata E count as_string as_numpy (Some (Some timeout))
                False use_monitor' (Some ''control'') False self
         else if use_monitor' then (Inr (args self), self)
         else (Inr Map.empty, self))"

definition get ::
  "env \<Rightarrow> int option \<Rightarrow> bool \<Rightarrow> bool \<Rightarrow> real option \<Rightarrow> bool \<Rightarrow> bool \<Rightarrow> PV \<Rightarrow> pyval result" where
  "get E count' as_string as_numpy timeout' with_ctrlvars use_monitor' self =
     (case get_with_metadata E count' as_string as_numpy (Some timeout') with_ctrlvars
             use_monitor' (Some (form self)) False self of
        (Inl e, s) \<Rightarrow> (Inl e, s)
      | (Inr dat, s) \<Rightarrow> (py_lookup dat ''value'', s))"

text \<open>The property \<^verbatim>\<open>enum_strs\<close>.\<close>

definition enum_strs :: "env \<Rightarrow> PV \<Rightarrow> pyval result" where
  "enum_strs E self = getarg E ''enum_strs'' self"

section \<open>Writing\<close>

fun index_of :: "'a \<Rightarrow> 'a list \<Rightarrow> nat option" where
  "index_of x [] = None"
| "index_of x (y # ys) = (if y = x then Some 0 else map_option Suc (index_of x ys))"

text \<open>
  \<^verbatim>\<open>names.index(value)\<close> for a text \<^verbatim>\<open>value\<close>: the first position in a tuple or list,
  ValueError when there is none. \<^verbatim>\<open>None\<close>, numbers and arrays have no method
  \<^verbatim>\<open>index\<close>; on a string it searches a substring, on bytes it refuses a text.
\<close>

fun index_method :: "pyval \<Rightarrow> string \<Rightarrow> exc + nat" where
  "index_method (PTuple xs) text = (case index_of (PStr text) xs of None \<Rightarrow> Inl ValueError | Some i \<Rightarrow> Inr i)"
| "index_method (PList xs) text = (case index_of (PStr text) xs of None \<Rightarrow> Inl ValueError | Some i \<Rightarrow> Inr i)"
| "index_method (PStr s) text =
     (case index_of text (map (\<lambda>i. take (length text) (drop i s)) [0 ..< Suc (length s)]) of
        None \<Rightarrow> Inl ValueError
      | Some i \<Rightarrow> Inr i)"
| "index_method (PBytes s) text = Inl TypeError"
| "index_method _ text = Inl AttributeError"

text \<open>
  The first block of \<^verbatim>\<open>put\<close>, for an enumerated destination: a text is looked up in
  \<^verbatim>\<open>self.enum_strs\<close>. The handler of ValueError reads \<^verbatim>\<open>self.enum_strs\<close> once more, for
  the message of the CaprotoValueError it raises.
\<close>

definition resolve_enum :: "env \<Rightarrow> pyval \<Rightarrow> PV \<Rightarrow> pyval result" where
  "resolve_enum E v self =
     (case v of
        PStr text \<Rightarrow>
          (case enum_strs E self of
             (Inl e, s) \<Rightarrow> (Inl e, s)
           | (Inr names, s) \<Rightarrow>
               (case index_method names text of
                  Inr i \<Rightarrow> (Inr (PInt (int i)), s)
                | Inl ValueError \<Rightarrow>
                    (case enum_strs E s of
                       (Inl e, s) \<Rightarrow> (Inl e, s)
                     | (Inr _, s) \<Rightarrow> (Inl CaprotoValueError, s))
                | Inl e \<Rightarrow> (Inl e, s)))
      | _ \<Rightarrow> (Inr v, self))"

fun is_iterable :: "pyval \<Rightarrow> bool" where
  "is_iterable (PStr s) = True"
| "is_iterable (PBytes s) = True"
| "is_iterable (PList xs) = True"
| "is_iterable (PTuple xs) = True"
| "is_iterable (PArray n xs) = True"
| "is_iterable _ = False"

fun encode_str :: "env \<Rightarrow> pyval \<Rightarrow> exc + pyval" where
  "encode_str E (PStr s) = Inr (PBytes (encode E s))"
| "encode_str E _ = Inl AttributeError"

fun is_str :: "pyval \<Rightarrow> bool" where
  "is_str (PStr s) = True"
| "is_str _ = False"

text \<open>The normalisation of the value in \<^verbatim>\<open>put\<close>, below the enum block.\<close>

definition normalise_value :: "env \<Rightarrow> pyval \<Rightarrow> pyval \<Rightarrow> exc + pyval" where
  "normalise_value E typefull v =
     (let v = (case v of
                 PStr text \<Rightarrow>
                   (if in_types typefull (char_types E)
                    then PBytes (encode E text @ [CHR 0x00])
                    else PTuple [v])
               | _ \<Rightarrow> (if \<not> is_iterable v then PTuple [v] else v))
      in bind (py_len v) (\<lambda>n.
         if n = 0 then Inr v
         else bind (py_getitem v (PInt 0)) (\<lambda>x.
              if is_str x
              then bind (py_iter v) (\<lambda>xs.
                   bind (mapM (encode_str E) xs) (\<lambda>bs. Inr (PTuple bs)))
              else Inr v)))"

text \<open>
  The end of \<^verbatim>\<open>put\<close>, from \<^verbatim>\<open>notify = any(...)\<close> on. \<open>Eff_write\<close> records the
  arguments of \<^verbatim>\<open>self._caproto_pv.write\<close>: the value, \<^verbatim>\<open>wait\<close>, whether \<^verbatim>\<open>callback\<close>
  is a function, \<^verbatim>\<open>timeout\<close> and \<^verbatim>\<open>notify\<close>. When the completion notification arrives,
  the channel calls \<^verbatim>\<open>run_callback\<close>; an exception of the user's callback stays in the
  channel's thread.
\<close>

definition issue_write ::
  "env \<Rightarrow> pyval \<Rightarrow> bool \<Rightarrow> real option \<Rightarrow> bool \<Rightarrow> pyval \<Rightarrow> pyval list \<Rightarrow> PV
     \<Rightarrow> unit result" where
  "issue_write E v wait timeout use_complete callback callback_data self =
     (let notify = (use_complete \<or> callback \<noteq> PNone \<or> wait);
          run_callback = \<not> (callback = PNone \<and> \<not> use_complete);
          s = (if notify \<and> use_complete
               then self\<lparr>args := (args self)(''put_complete'' \<mapsto> PBool False)\<rparr>
               else self);
          wait = (if notify then wait else False);
          s = s\<lparr>trace := trace s @ [Eff_write v wait run_callback timeout notify]\<rparr>
      in case chan_write E (trace s) v wait timeout notify of
           Inl e \<Rightarrow> (Inl e, s)
         | Inr completed \<Rightarrow>
             if completed \<and> run_callback then
               (let s = (if use_complete
                         then s\<lparr>args := (args s)(''put_complete'' \<mapsto> PBool True)\<rparr>
                         else s);
                    s = (if callback \<noteq> PNone
                         then snd (invoke E callback callback_data Map.empty s)
                         else s)
                in (Inr (), s))
             else (Inr (), s))"

text \<open>\<^verbatim>\<open>put\<close> (with its decorator).\<close>

definition put ::
  "env \<Rightarrow> pyval \<Rightarrow> bool \<Rightarrow> real option option \<Rightarrow> bool \<Rightarrow> pyval \<Rightarrow> pyval list option \<Rightarrow> PV
     \<Rightarrow> unit result" where
  "put E v wait timeout' use_complete callback callback_data' self =
     (case wait_for_connection E (case timeout' of None \<Rightarrow> Some 5 | Some t \<Rightarrow> t) self of
        (Inl e, s) \<Rightarrow> (Inl e, s)
      | (Inr _, s) \<Rightarrow>
          (let timeout = (case timeout' of None \<Rightarrow> Some 30 | Some t \<Rightarrow> t);
               callback_data = (case callback_data' of None \<Rightarrow> [] | Some d \<Rightarrow> d)
           in case bind (py_lookup (args s) ''write_access'') truthy of
                Inl e \<Rightarrow> (Inl e, s)
              | Inr write_access \<Rightarrow>
                  if \<not> write_access then (Inl AccessRightsException, s)
                  else
                    (case py_lookup (args s) ''typefull'' of
                       Inl e \<Rightarrow> (Inl e, s)
                     | Inr tf \<Rightarrow>
                         (case (if in_types tf (enum_types E) then resolve_enum E v s
                                else (Inr v, s)) of
                            (Inl e, s) \<Rightarrow> (Inl e, s)
                          | (Inr v, s) \<Rightarrow>
                              (case bind (py_lookup (args s) ''typefull'')
                                      (\<lambda>tf. normalise_value E tf v) of
                                 Inl e \<Rightarrow> (Inl e, s)
                               | Inr v \<Rightarrow>
                                   issue_write E v wait timeout use_complete callback
                                     callback_data s)))))"

section \<open>The callback registry\<close>

definition run_callback :: "env \<Rightarrow> nat \<Rightarrow> PV \<Rightarrow> unit result" where
  "run_callback E index self =
     (case map_of (callbacks self) index of
        None \<Rightarrow> (Inr (), self)
      | Some (fcn, kwargs) \<Rightarrow>
          (let kwd = (args self ++ kwargs)(''cb_info'' \<mapsto> PTuple [PInt (int index), PSelf])
           in if callable fcn then invoke E fcn [] kwd self else (Inr (), self)))"

text \<open>
  The loop of \<^verbatim>\<open>run_callbacks\<close> over the sorted indices: an exception of a callback ends
  the loop and propagates.
\<close>

fun run_callbacks_loop :: "env \<Rightarrow> nat list \<Rightarrow> PV \<Rightarrow> unit result" where
  "run_callbacks_loop E [] self = (Inr (), self)"
| "run_callbacks_loop E (index # rest) self =
     (case run_callback E index self of
        (Inl e, s) \<Rightarrow> (Inl e, s)
      | (Inr _, s) \<Rightarrow> run_callbacks_loop E rest s)"

definition run_callbacks :: "env \<Rightarrow> PV \<Rightarrow> unit result" where
  "run_callbacks E self = run_callbacks_loop E (sort (map fst (callbacks self))) self"

text \<open>\<^verbatim>\<open>__on_changes\<close>: the callback of the auto-monitor subscription.\<close>

definition on_changes :: "env \<Rightarrow> command \<Rightarrow> PV \<Rightarrow> unit result" where
  "on_changes E cmd self =
     (case bind (py_lookup (args self) ''typefull'') (\<lambda>tf.
           bind (py_lookup (args self) ''enum_strs'') (\<lambda>es.
           read_response_to_pyepics E tf cmd es)) of
        Inl e \<Rightarrow> (Inl e, self)
      | Inr info \<Rightarrow> run_callbacks E (self\<lparr>args := args self ++ info\<rparr>))"

text \<open>
  \<^verbatim>\<open>add_callback\<close>: \<open>index\<close> is the keyword argument \<^verbatim>\<open>index\<close>, \<open>kw\<close> the extra
  keyword arguments. The result is the index of the new callback.
\<close>

definition add_callback ::
  "env \<Rightarrow> pyval \<Rightarrow> pyval \<Rightarrow> bool \<Rightarrow> bool \<Rightarrow> pydict \<Rightarrow> PV \<Rightarrow> nat result" where
  "add_callback E callback index run_now with_ctrlvars kw self =
     (if \<not> callable callback then (Inl CaprotoValueError, self)
      else if index \<noteq> PNone then (Inl CaprotoValueError, self)
      else
        (let index = cb_count self;
             s = self\<lparr>cb_count := Suc (cb_count self),
                      callbacks := AList.update index (callback, kw) (callbacks self)\<rparr>
         in case (if connected s then check_auto_monitor_sub None s else (Inr (), s)) of
              (Inl e, s) \<Rightarrow> (Inl e, s)
            | (Inr _, s) \<Rightarrow>
                (case (if with_ctrlvars \<and> connected s then get_ctrlvars E None s
                       else (Inr Map.empty, s)) of
                   (Inl e, s) \<Rightarrow> (Inl e, s)
                 | (Inr _, s) \<Rightarrow>
                     (case (if run_now then
                              (case get E None True True None False True s of
                                 (Inl e, s) \<Rightarrow> (Inl e, s)
                               | (Inr _, s) \<Rightarrow>
                                   (if connected s then run_callback E index s
                                    else (Inr (), s)))
                            else (Inr (), s)) of
                        (Inl e, s) \<Rightarrow> (Inl e, s)
                      | (Inr _, s) \<Rightarrow> (Inr index, s)))))"

definition remove_callback :: "nat \<Rightarrow> PV \<Rightarrow> PV" where
  "remove_callback index self = self\<lparr>callbacks := AList.delete index (callbacks self)\<rparr>"

definition clear_callbacks :: "PV \<Rightarrow> PV" where
  "clear_callbacks self = self\<lparr>callbacks := []\<rparr>"

definition disconnect :: "PV \<Rightarrow> PV" where
  "disconnect self =
     (if connected self then self\<lparr>trace := trace self @ [Eff_go_idle]\<rparr> else self)"

section \<open>Batch writes\<close>

text \<open>
  \<^verbatim>\<open>except TimeoutError\<close> catches the exceptions that are instances of the built-in
  TimeoutError; of the exceptions of this model that is CaprotoTimeoutError, which caproto
  declares as a subclass of it.
\<close>

definition is_TimeoutError :: "exc \<Rightarrow> bool" where
  "is_TimeoutError e = (e = CaprotoTimeoutError)"

text \<open>
  The loop \<^verbatim>\<open>for p, v in zip(pvs, values)\<close> of \<^verbatim>\<open>caput_many\<close>, with each handle's
  environment (its channel): the statuses \<^verbatim>\<open>out\<close> and the handles after the loop, or the
  exception that leaves the loop.
\<close>

fun caput_loop ::
  "real option \<Rightarrow> bool \<Rightarrow> real \<Rightarrow> bool \<Rightarrow> ((env \<times> PV) \<times> pyval) list
     \<Rightarrow> exc + (int list \<times> (env \<times> PV) list)" where
  "caput_loop connection_timeout' wait_each put_timeout wait_all [] = Inr ([], [])"
| "caput_loop connection_timeout' wait_each put_timeout wait_all (((E, p), v) # rest) =
     (case (case wait_for_connection E connection_timeout' p of
              (Inl e, s) \<Rightarrow> (Inl e, s)
            | (Inr _, s) \<Rightarrow> put E v wait_each (Some (Some put_timeout)) wait_all PNone None s) of
        (Inl e, s) \<Rightarrow>
          (if is_TimeoutError e
           then (case caput_loop connection_timeout' wait_each put_timeout wait_all rest of
                   Inl e \<Rightarrow> Inl e
                 | Inr (out, ps) \<Rightarrow> Inr (- 1 # out, (E, s) # ps))
           else Inl e)
      | (Inr _, s) \<Rightarrow>
          (case caput_loop connection_timeout' wait_each put_timeout wait_all rest of
             Inl e \<Rightarrow> Inl e
           | Inr (out, ps) \<Rightarrow> Inr (1 # out, (E, s) # ps)))"

text \<open>\<^verbatim>\<open>p.connected and p.put_complete\<close> as a condition.\<close>

definition put_done :: "PV \<Rightarrow> exc + bool" where
  "put_done p =
     (if connected p then bind (py_lookup (args p) ''put_complete'') truthy else Inr False)"

text \<open>
  \<^verbatim>\<open>caput_many\<close>. The default context is outside the module: \<open>ctx\<close> gives, for a name,
  the channel object the context hands out and the behaviour of that channel. With
  \<^verbatim>\<open>wait='all'\<close> the function polls the handles until all are done or \<^verbatim>\<open>put_timeout\<close> has
  passed; the completion notifications that arrive until then are those the environment
  announces at the write, so the statuses are read from the handles as the loop left them.
\<close>

definition caput_many ::
  "(string \<Rightarrow> env \<times> caproto_pv) \<Rightarrow> string list \<Rightarrow> pyval list \<Rightarrow> pyval \<Rightarrow> real option \<Rightarrow> real
     \<Rightarrow> exc + int list" where
  "caput_many ctx pvlist vals wait connection_timeout' put_timeout =
     (if length pvlist \<noteq> length vals then Inl CaprotoValueError
      else
        bind (mapM (\<lambda>name.
                case PV_init (fst (ctx name)) name PNone ''time'' False (AM_Bool False) None
                       PNone connection_timeout' PNone (snd (ctx name)) of
                  (Inl e, s) \<Rightarrow> Inl e
                | (Inr _, s) \<Rightarrow> Inr (fst (ctx name), s)) pvlist) (\<lambda>pvs.
        let wait_all = (wait = PStr ''all'');
            wait_each = (wait = PStr ''each'')
        in bind (caput_loop connection_timeout' wait_each put_timeout wait_all (zip pvs vals))
             (\<lambda>(out, pvs).
                if \<not> wait_all then Inr (map (\<lambda>st. if st = 1 then st else - 1) out)
                else mapM (\<lambda>(E, p). bind (put_done p) (\<lambda>d. Inr (if d then 1 else - 1))) pvs)))"

section \<open>Notifications\<close>

text \<open>
  What happens to a handle from outside, one event at a time: the channel object changes
  its state (before any callback runs), the channel delivers a connection-state change
  or an access-rights change to the callbacks the handle registered, the subscription
  delivers a monitor update, and a caller enters \<^verbatim>\<open>wait_for_connection\<close>, which clears the
  connect event of a handle that is not connected.
\<close>

datatype event =
    Channel_changes caproto_pv
  | Connection_state caproto_pv string
  | Access_rights caproto_pv nat
  | Monitor_update command
  | Wait_begins

fun step :: "env \<Rightarrow> PV \<Rightarrow> event \<Rightarrow> PV" where
  "step E self (Channel_changes cpv) = self\<lparr>caproto_pv := cpv\<rparr>"
| "step E self (Connection_state cpv state) = snd (connection_state_changed E cpv state self)"
| "step E self (Access_rights cpv ar) = snd (access_rights_changed E cpv ar self)"
| "step E self (Monitor_update cmd) = snd (on_changes E cmd self)"
| "step E self Wait_begins = (if connected self then self else self\<lparr>connect_event := False\<rparr>)"

definition run :: "env \<Rightarrow> PV \<Rightarrow> event list \<Rightarrow> PV" where
  "run E self evs = foldl (step E) self evs"

section \<open>Equality of handles\<close>

text \<open>\<^verbatim>\<open>PV.__eq__(self, other)\<close> ignores both arguments.\<close>

definition PV_eq :: "'pv \<Rightarrow> 'other \<Rightarrow> bool" where
  "PV_eq self other = False"

section \<open>The condition of the on-demand read, in the words of the specification\<close>

text \<open>
  The specification's condition for a network read in \<^verbatim>\<open>get_with_metadata\<close>:
  \<^verbatim>\<open>use_monitor\<close> is false, or no live subscription exists, or the cached value is absent,
  or the requested count exceeds the length of the cached value. The length of the cached
  value is an argument of the condition.
\<close>

definition spec_read_required ::
  "bool \<Rightarrow> subscription option \<Rightarrow> bool \<Rightarrow> int option \<Rightarrow> nat \<Rightarrow> bool" where
  "spec_read_required use_monitor sub cached_absent count cached_length \<longleftrightarrow>
     \<not> use_monitor \<or> sub = None \<or> cached_absent
     \<or> (case count of None \<Rightarrow> False | Some c \<Rightarrow> c > int cached_length)"

section \<open>Character and string types, in the words of the specification\<close>

text \<open>
  The types whose values are characters or strings, in the native form and in the status,
  time, graphic and control forms.
\<close>

definition spec_char_or_string_types :: "ChannelType list" where
  "spec_char_or_string_types =
     [ChannelType_STRING, ChannelType_CHAR, ChannelType_STS_STRING, ChannelType_STS_CHAR,
      ChannelType_TIME_STRING, ChannelType_TIME_CHAR, ChannelType_GR_STRING,
      ChannelType_GR_CHAR, ChannelType_CTRL_STRING, ChannelType_CTRL_CHAR,
      ChannelType_STSACK_STRING, ChannelType_CLASS_NAME]"

section \<open>What a step of the handle leaves alone\<close>

text \<open>
  \<open>frame s s'\<close>: the handle \<open>s'\<close> has the effects of \<open>s\<close> and then effects that are no
  write to the channel, and it has the same callback counter and the same callback
  registry as \<open>s\<close>.
\<close>

fun is_write :: "effect \<Rightarrow> bool" where
  "is_write (Eff_write v w r t n) = True"
| "is_write _ = False"

definition frame :: "PV \<Rightarrow> PV \<Rightarrow> bool" where
  "frame s s' \<longleftrightarrow>
     take (length (trace s)) (trace s') = trace s
     \<and> list_all (\<lambda>e. \<not> is_write e) (drop (length (trace s)) (trace s'))
     \<and> cb_count s' = cb_count s \<and> callbacks s' = callbacks s"

text \<open>
  \<open>keeps s s'\<close>: the handle \<open>s'\<close> has the channel object, the connect event and the
  cached full type of \<open>s\<close>.
\<close>

definition keeps :: "PV \<Rightarrow> PV \<Rightarrow> bool" where
  "keeps s s' \<longleftrightarrow>
     caproto_pv s' = caproto_pv s \<and> connect_event s' = connect_event s
     \<and> args s' ''typefull'' = args s ''typefull''"

section \<open>Reading one entry of a result\<close>

text \<open>The entry under a key of a dictionary that a computation returns.\<close>

definition result_key :: "string \<Rightarrow> exc + pydict \<Rightarrow> exc + pyval option" where
  "result_key k r = (case r of Inl e \<Rightarrow> Inl e | Inr d \<Rightarrow> Inr (d k))"

section \<open>Sequences of registry operations\<close>

text \<open>
  The operations on the callback registry of one handle, in the order in which a client
  issues them. \<open>run_ops\<close> applies them from left to right and collects the indices that
  the calls of \<^verbatim>\<open>add_callback\<close> return; a call that raises returns no index.
  \<open>expected_call self index\<close> is the one invocation that \<^verbatim>\<open>run_callback\<close> makes for
  the index: the callable gets a copy of the cache of \<open>self\<close>, updated with the keyword
  arguments of the registration and with \<^verbatim>\<open>cb_info\<close>.
\<close>

datatype registry_op =
    Add_callback pyval pyval bool bool pydict
  | Remove_callback nat
  | Clear_callbacks
  | Run_callbacks
  | Update command

fun apply_op :: "env \<Rightarrow> registry_op \<Rightarrow> PV \<Rightarrow> nat option \<times> PV" where
  "apply_op E (Add_callback callback index run_now with_ctrlvars kw) self =
     (case add_callback E callback index run_now with_ctrlvars kw self of
        (Inl e, s) \<Rightarrow> (None, s)
      | (Inr i, s) \<Rightarrow> (Some i, s))"
| "apply_op E (Remove_callback index) self = (None, remove_callback index self)"
| "apply_op E Clear_callbacks self = (None, clear_callbacks self)"
| "apply_op E Run_callbacks self = (None, snd (run_callbacks E self))"
| "apply_op E (Update cmd) self = (None, snd (on_changes E cmd self))"

fun run_ops :: "env \<Rightarrow> registry_op list \<Rightarrow> PV \<Rightarrow> nat list \<times> PV" where
  "run_ops E [] self = ([], self)"
| "run_ops E (op1 # ops) self =
     (case apply_op E op1 self of
        (r, s) \<Rightarrow>
          (case run_ops E ops s of
             (rs, s') \<Rightarrow> ((case r of None \<Rightarrow> rs | Some i \<Rightarrow> i # rs), s')))"

definition expected_call :: "PV \<Rightarrow> nat \<Rightarrow> effect list" where
  "expected_call self index =
     (case map_of (callbacks self) index of
        None \<Rightarrow> []
      | Some (fcn, kwargs) \<Rightarrow>
          if callable fcn
          then [Eff_call fcn [] ((args self ++ kwargs)
                  (''cb_info'' \<mapsto> PTuple [PInt (int index), PSelf]))]
          else [])"

section \<open>A concrete instance of the parameters\<close>

text \<open>
  The concrete inputs below are evaluated with the tables as caproto declares them, with
  \<^verbatim>\<open>STR_ENC\<close> a codec that maps every byte to the character of the same code
  (latin-1) and with \<^verbatim>\<open>tobytes\<close> on arrays of one-byte integers. In this instance the
  network answers no connection request and no read, every write is acknowledged, and no
  user callback raises; the concrete inputs change these fields where they need an answer.
\<close>

definition native_to :: "ChannelType list \<Rightarrow> ChannelType \<rightharpoonup> ChannelType" where
  "native_to ts =
     map_of (zip [ChannelType_STRING, ChannelType_INT, ChannelType_FLOAT, ChannelType_ENUM,
                  ChannelType_CHAR, ChannelType_LONG, ChannelType_DOUBLE] ts)"

definition caproto_field_types :: "string \<Rightarrow> (ChannelType \<rightharpoonup> ChannelType) option" where
  "caproto_field_types k =
     (if k = ''native'' then
        Some (native_to [ChannelType_STRING, ChannelType_INT, ChannelType_FLOAT,
          ChannelType_ENUM, ChannelType_CHAR, ChannelType_LONG, ChannelType_DOUBLE])
      else if k = ''status'' then
        Some (native_to [ChannelType_STS_STRING, ChannelType_STS_INT, ChannelType_STS_FLOAT,
          ChannelType_STS_ENUM, ChannelType_STS_CHAR, ChannelType_STS_LONG,
          ChannelType_STS_DOUBLE])
      else if k = ''time'' then
        Some (native_to [ChannelType_TIME_STRING, ChannelType_TIME_INT, ChannelType_TIME_FLOAT,
          ChannelType_TIME_ENUM, ChannelType_TIME_CHAR, ChannelType_TIME_LONG,
          ChannelType_TIME_DOUBLE])
      else if k = ''graphic'' then
        Some (native_to [ChannelType_GR_STRING, ChannelType_GR_INT, ChannelType_GR_FLOAT,
          ChannelType_GR_ENUM, ChannelType_GR_CHAR, ChannelType_GR_LONG,
          ChannelType_GR_DOUBLE])
      else if k = ''control'' then
        Some (native_to [ChannelType_CTRL_STRING, ChannelType_CTRL_INT, ChannelType_CTRL_FLOAT,
          ChannelType_CTRL_ENUM, ChannelType_CTRL_CHAR, ChannelType_CTRL_LONG,
          ChannelType_CTRL_DOUBLE])
      else None)"

fun byte_of :: "pyval \<Rightarrow> exc + char" where
  "byte_of (PInt i) = Inr (char_of i)"
| "byte_of _ = Inl TypeError"

fun bytes_of_array :: "pyval \<Rightarrow> exc + string" where
  "bytes_of_array (PArray n xs) = mapM byte_of xs"
| "bytes_of_array _ = Inl AttributeError"

fun unix_of_epics :: "pyval \<Rightarrow> pyval \<Rightarrow> pyval" where
  "unix_of_epics (PInt secs) (PInt nanos) =
     PFloat (real_of_int secs + 631152000 + real_of_int nanos / 1000000000)"
| "unix_of_epics _ _ = PNone"

definition caproto_env :: env where
  "caproto_env =
     \<lparr>char_types = [ChannelType_CHAR, ChannelType_TIME_CHAR, ChannelType_CTRL_CHAR,
                     ChannelType_STS_CHAR],
      string_types = [ChannelType_STRING, ChannelType_TIME_STRING, ChannelType_CTRL_STRING,
                      ChannelType_STS_STRING],
      enum_types = [ChannelType_ENUM, ChannelType_STS_ENUM, ChannelType_TIME_ENUM,
                    ChannelType_CTRL_ENUM],
      field_types = caproto_field_types,
      AUTOMONITOR_MAXLENGTH = 65536,
      decode = id,
      encode = id,
      epics_timestamp_to_unix = unix_of_epics,
      np_tobytes = bytes_of_array,
      chan_connect = (\<lambda>tr timeout. Inl CaprotoTimeoutError),
      chan_read = (\<lambda>tr dt n timeout. Inl CaprotoTimeoutError),
      chan_write = (\<lambda>tr v wait timeout notify. Inr notify),
      call_user = (\<lambda>tr f. None)\<rparr>"

text \<open>
  A concrete handle for the concrete inputs: the channel of an enumerated variable with one
  element and read and write access, connected when the handle is made; the handle is built
  by the constructor, without auto-monitor. In \<open>demo_env\<close> every read is answered with
  the index 0; a control-form read of the enumerated type carries the names
  \<^verbatim>\<open>off\<close> and \<^verbatim>\<open>on\<close>.
\<close>

definition demo_channel :: caproto_pv where
  "demo_channel =
     \<lparr>cpv_connected = True,
      cpv_channel = Some \<lparr>native_data_type = ChannelType_ENUM, native_data_count = 1,
                          access_rights = 3\<rparr>\<rparr>"

definition demo_response :: "ChannelType \<Rightarrow> command" where
  "demo_response dt =
     \<lparr>data = PArray True [PInt 0], data_type = dt, data_count = 1,
      metadata = (if dt = ChannelType_CTRL_ENUM
                  then [''enum_strings'' \<mapsto> PTuple [PBytes ''off'', PBytes ''on'']]
                  else Map.empty)\<rparr>"

definition demo_env :: env where
  "demo_env = caproto_env\<lparr>chan_read := (\<lambda>tr dt n t. Inr (demo_response dt))\<rparr>"

definition demo_pv :: PV where
  "demo_pv =
     snd (PV_init demo_env ''sw '' PNone ''time'' False (AM_Bool False) None PNone None PNone
            demo_channel)"

text \<open>
  The same handle when its cache holds a value and the enum names, as after a monitor
  update and a control-form read.
\<close>

definition cached_pv :: PV where
  "cached_pv = demo_pv\<lparr>args := (args demo_pv)
       (''value'' \<mapsto> PInt 0, ''enum_strs'' \<mapsto> PTuple [PStr ''off'', PStr ''on''])\<rparr>"

text \<open>
  The handle with a live auto-monitor subscription and a cache that holds an array of
  two elements.
\<close>

definition monitored_pv :: PV where
  "monitored_pv = cached_pv
     \<lparr>auto_monitor_sub :=
        Some \<lparr>sub_data_type = PChannelType ChannelType_TIME_ENUM, sub_data_count = None,
              sub_mask = DEFAULT_SUBSCRIPTION_MASK\<rparr>,
      args := (args cached_pv)
        (''value'' \<mapsto> PArray True [PInt 0, PInt 1],
         ''raw_value'' \<mapsto> PArray True [PInt 0, PInt 1],
         ''char_value'' \<mapsto> PList [PStr ''off'', PStr ''on''],
         ''nelm'' \<mapsto> PInt 2, ''count'' \<mapsto> PInt 2)\<rparr>"

text \<open>
  A channel of one \<^verbatim>\<open>LONG\<close> element, and the handle that \<^verbatim>\<open>PV('n', count=1)\<close> builds
  on it.
\<close>

definition long_channel :: caproto_pv where
  "long_channel =
     \<lparr>cpv_connected = True,
      cpv_channel = Some \<lparr>native_data_type = ChannelType_LONG, native_data_count = 1,
                          access_rights = 3\<rparr>\<rparr>"

definition counted_pv :: PV where
  "counted_pv =
     snd (PV_init demo_env ''n'' PNone ''time'' False (AM_Bool False) (Some 1) PNone None PNone
            long_channel)"

text \<open>
  A channel that is not connected, and a handle built on it with one callback, as
  \<^verbatim>\<open>PV('sw', callback=f)\<close> builds it before the channel connects.
\<close>

definition idle_channel :: caproto_pv where
  "idle_channel = \<lparr>cpv_connected = False, cpv_channel = None\<rparr>"

definition callback_pv :: PV where
  "callback_pv =
     snd (PV_init demo_env ''sw'' (PFunc 1) ''time'' False (AM_Bool False) None PNone None PNone
            idle_channel)"

text \<open>
  The handle with a live auto-monitor subscription after one monitor update, before the
  enum names have been read: the cache holds the value and no names.
\<close>

definition unnamed_pv :: PV where
  "unnamed_pv = demo_pv
     \<lparr>auto_monitor_sub :=
        Some \<lparr>sub_data_type = PChannelType ChannelType_TIME_ENUM, sub_data_count = None,
              sub_mask = DEFAULT_SUBSCRIPTION_MASK\<rparr>,
      args := (args demo_pv)
        (''value'' \<mapsto> PInt 0,
         ''raw_value'' \<mapsto> PArray True [PInt 0],
         ''char_value'' \<mapsto> PNone)\<rparr>"

text \<open>
  A sequence of registrations, with a removal and a clearing in between, and the part of
  an invocation that identifies it: the callable and its \<^verbatim>\<open>cb_info\<close>.
\<close>

fun call_info :: "effect \<Rightarrow> pyval \<times> pyval option" where
  "call_info (Eff_call f ps kw) = (f, kw ''cb_info'')"
| "call_info _ = (PNone, None)"

definition demo_ops :: "registry_op list" where
  "demo_ops =
     [Add_callback (PFunc 1) PNone False False [''tag'' \<mapsto> PInt 7],
      Add_callback (PFunc 2) PNone False False Map.empty,
      Remove_callback 0,
      Clear_callbacks,
      Add_callback (PFunc 3) PNone False False Map.empty,
      Add_callback (PFunc 4) PNone False False Map.empty]"

section \<open>The concrete handle, evaluated\<close>

lemmas demo_defs = demo_channel_def demo_env_def caproto_env_def demo_response_def
  caproto_field_types_def native_to_def

lemma demo_pv_eq:
  "demo_pv =
     \<lparr>pvname = ''sw'', form = ''time'', verbose = False,
      auto_monitor = AM_Bool False, ftype = PNone, p_connected = True,
      connect_event = True, connection_timeout = 1, default_count = None,
      auto_monitor_sub = None,
      args = (map_of (map (\<lambda>k. (k, PNone)) fields))
         (''pvname'' \<mapsto> PStr ''sw'',
          ''type'' \<mapsto> PChannelType ChannelType_ENUM,
          ''typefull'' \<mapsto> PChannelType ChannelType_TIME_ENUM,
          ''nelm'' \<mapsto> PInt 1, ''count'' \<mapsto> PInt 1,
          ''write_access'' \<mapsto> PBool True, ''read_access'' \<mapsto> PBool True,
          ''access'' \<mapsto> PStr ''read/write''),
      connection_callbacks = [], cb_count = 0, access_callbacks = [],
      callbacks = [], conn_started = False,
      caproto_pv = demo_channel, trace = []\<rparr>"
  by (simp add: demo_pv_def PV_init_def demo_defs
      connection_state_changed_def connection_established_def access_rights_changed_def
      check_auto_monitor_sub_def py_strip_def py_lower_def is_space_def lower_char_def
      init_callbacks_def fields_def access_strs_def Let_def)

lemma counted_pv_eq:
  "counted_pv =
     \<lparr>pvname = ''n'', form = ''time'', verbose = False,
      auto_monitor = AM_Bool False, ftype = PNone, p_connected = True,
      connect_event = True, connection_timeout = 1, default_count = Some 1,
      auto_monitor_sub = None,
      args = (map_of (map (\<lambda>k. (k, PNone)) fields))
         (''pvname'' \<mapsto> PStr ''n'',
          ''type'' \<mapsto> PChannelType ChannelType_LONG,
          ''typefull'' \<mapsto> PChannelType ChannelType_TIME_LONG,
          ''nelm'' \<mapsto> PInt 1, ''count'' \<mapsto> PInt 1,
          ''write_access'' \<mapsto> PBool True, ''read_access'' \<mapsto> PBool True,
          ''access'' \<mapsto> PStr ''read/write''),
      connection_callbacks = [], cb_count = 0, access_callbacks = [],
      callbacks = [], conn_started = False,
      caproto_pv = long_channel, trace = []\<rparr>"
  by (simp add: counted_pv_def PV_init_def long_channel_def demo_defs
      connection_state_changed_def connection_established_def access_rights_changed_def
      check_auto_monitor_sub_def py_strip_def py_lower_def is_space_def lower_char_def
      init_callbacks_def fields_def access_strs_def Let_def)

lemmas eval_defs = put_def resolve_enum_def enum_strs_def getarg.simps get_with_metadata.simps
  get_ctrlvars_def get_timevars_def read_and_update_def do_read_def field_type_def
  force_read_access_rights_def access_rights_changed_def wait_for_connection_def connected_def
  read_step_def coerce_step_def forced_type_def read_required_def
  resolve_count_def resolve_timeout_def type_key_of_def
  read_response_to_pyepics_def parse_dbr_metadata_def arg_map_def scalarify_def
  pyepics_get_value_def raw_value_path_def unwrap_single_def
  py_lookup_def get_or_None_def bind_def py_index_def time_args_def access_strs_def
  fields_def Let_def

section \<open>Steps that issue no write and keep the registry\<close>

lemma frame_refl [simp]: "frame s s"
  by (simp add: frame_def)

lemma frame_ext:
  "frame s s' \<longleftrightarrow> (\<exists>effs. trace s' = trace s @ effs \<and> list_all (\<lambda>e. \<not> is_write e) effs)
      \<and> cb_count s' = cb_count s \<and> callbacks s' = callbacks s"
  unfolding frame_def
  by (metis append_eq_conv_conj append_take_drop_id)

lemma frame_trans: "frame s s' \<Longrightarrow> frame s' s'' \<Longrightarrow> frame s s''"
  unfolding frame_ext by auto

lemma frame_upd [simp]:
  "frame s (s'\<lparr>args := a\<rparr>) = frame s s'"
  "frame s (s'\<lparr>caproto_pv := c\<rparr>) = frame s s'"
  "frame s (s'\<lparr>connect_event := b\<rparr>) = frame s s'"
  "frame s (s'\<lparr>p_connected := b\<rparr>) = frame s s'"
  "frame s (s'\<lparr>auto_monitor := am\<rparr>) = frame s s'"
  "frame s (s'\<lparr>auto_monitor_sub := sub\<rparr>) = frame s s'"
  by (simp_all add: frame_def)

lemma frame_trace: "frame s s' \<Longrightarrow> \<not> is_write e \<Longrightarrow> frame s (s'\<lparr>trace := trace s' @ [e]\<rparr>)"
  unfolding frame_ext by auto

lemma frame_trace_upd:
  "frame s0 s \<Longrightarrow> \<not> is_write e \<Longrightarrow> t = trace s @ [e] \<Longrightarrow> frame s0 (s\<lparr>trace := t\<rparr>)"
  unfolding frame_ext by auto

lemma frame_bindI:
  assumes "frame s0 (snd m)"
    and "\<And>x. fst m = Inr x \<Longrightarrow> frame s0 (snd (g x (snd m)))"
  shows "frame s0 (snd (case m of (Inl e, s') \<Rightarrow> (Inl e, s') | (Inr x, s') \<Rightarrow> g x s'))"
  using assms by (cases m; cases "fst m") auto

lemma frame_bind2I:
  assumes "frame s0 (snd m)"
    and "\<And>a b. fst m = Inr (a, b) \<Longrightarrow> frame s0 (snd (g a b (snd m)))"
  shows "frame s0 (snd (case m of (Inl e, s') \<Rightarrow> (Inl e, s') | (Inr (a, b), s') \<Rightarrow> g a b s'))"
  using assms by (cases m; cases "fst m") auto

lemma frame_sumI:
  "(\<And>e. m = Inl e \<Longrightarrow> frame s0 (snd (f e))) \<Longrightarrow> (\<And>x. m = Inr x \<Longrightarrow> frame s0 (snd (g x)))
   \<Longrightarrow> frame s0 (snd (case m of Inl e \<Rightarrow> f e | Inr x \<Rightarrow> g x))"
  by (cases m) auto

lemma frame_optI:
  "(m = None \<Longrightarrow> frame s0 (snd a)) \<Longrightarrow> (\<And>x. m = Some x \<Longrightarrow> frame s0 (snd (g x)))
   \<Longrightarrow> frame s0 (snd (case m of None \<Rightarrow> a | Some x \<Rightarrow> g x))"
  by (cases m) auto

lemma frame_ifI:
  "(c \<Longrightarrow> frame s0 (snd a)) \<Longrightarrow> (\<not> c \<Longrightarrow> frame s0 (snd b))
   \<Longrightarrow> frame s0 (snd (if c then a else b))"
  by simp

lemma frame_pairI: "frame s0 s \<Longrightarrow> frame s0 (snd (r, s))"
  by simp

named_theorems frame_step

lemma frame_sum2I:
  "(\<And>e. m = Inl e \<Longrightarrow> frame s0 (snd (f e)))
   \<Longrightarrow> (\<And>a b. m = Inr (a, b) \<Longrightarrow> frame s0 (snd (g a b)))
   \<Longrightarrow> frame s0 (snd (case m of Inl e \<Rightarrow> f e | Inr (a, b) \<Rightarrow> g a b))"
  by (cases m) auto

lemmas frame_intros = frame_bindI frame_bind2I frame_sum2I frame_sumI frame_optI frame_ifI frame_pairI

lemma frame_invoke [frame_step]: "frame s0 s \<Longrightarrow> frame s0 (snd (invoke E f ps kw s))"
  by (auto simp: invoke_def Let_def intro!: frame_trace_upd)

lemma frame_call_access_callbacks [frame_step]:
  "frame s0 s \<Longrightarrow> frame s0 (call_access_callbacks E cbs r w s)"
  by (induction cbs arbitrary: s) (simp_all add: frame_invoke)

lemma frame_access_rights_changed [frame_step]:
  "frame s0 s \<Longrightarrow> frame s0 (snd (access_rights_changed E cpv ar s))"
  by (simp add: access_rights_changed_def Let_def frame_call_access_callbacks)

lemma frame_check_auto_monitor_sub [frame_step]:
  "frame s0 s \<Longrightarrow> frame s0 (snd (check_auto_monitor_sub c s))"
  unfolding check_auto_monitor_sub_def Let_def
  by (intro frame_intros) (auto intro!: frame_trace_upd)

lemma frame_connection_established [frame_step]:
  "frame s0 s \<Longrightarrow> frame s0 (snd (connection_established E s))"
  unfolding connection_established_def Let_def
  by (intro frame_intros frame_step) (simp_all add: frame_step)

lemma frame_call_connection_callbacks [frame_step]:
  "frame s0 s \<Longrightarrow> frame s0 (snd (call_connection_callbacks E cbs conn s))"
proof (induction cbs arbitrary: s)
  case Nil
  then show ?case by simp
next
  case (Cons cb cbs)
  show ?case
    unfolding call_connection_callbacks.simps
    by (intro frame_intros frame_invoke Cons)
qed

lemma frame_connection_state_changed [frame_step]:
  "frame s0 s \<Longrightarrow> frame s0 (snd (connection_state_changed E cpv state s))"
proof -
  assume f: "frame s0 s"
  obtain r s1 where e: "connection_established E (s\<lparr>caproto_pv := cpv\<rparr>) = (r, s1)"
    by (cases "connection_established E (s\<lparr>caproto_pv := cpv\<rparr>)")
  have f1: "frame s0 s1"
    using frame_connection_established [of s0 "s\<lparr>caproto_pv := cpv\<rparr>" E] f e by simp
  show ?thesis
    unfolding connection_state_changed_def Let_def
    using f f1 e
    by (cases r) (auto intro!: frame_call_connection_callbacks)
qed

lemma frame_deliver [frame_step]: "frame s0 s \<Longrightarrow> frame s0 (deliver E ns s)"
  by (induction ns arbitrary: s) (auto simp: frame_connection_state_changed)

lemma frame_wait_for_connection [frame_step]:
  "frame s0 s \<Longrightarrow> frame s0 (snd (wait_for_connection E t s))"
  unfolding wait_for_connection_def Let_def
  by (intro frame_intros frame_step frame_trace_upd) (simp_all add: frame_step)

lemma frame_do_read [frame_step]: "frame s0 s \<Longrightarrow> frame s0 (snd (do_read E dt c t s))"
  by (auto simp: do_read_def Let_def intro!: frame_trace_upd)

lemma frame_read_and_update [frame_step]:
  "frame s0 s \<Longrightarrow> frame s0 (snd (read_and_update E dt t s))"
  unfolding read_and_update_def
  by (intro frame_intros frame_step) (simp_all add: frame_step)

lemma frame_force_read_access_rights [frame_step]:
  "frame s0 s \<Longrightarrow> frame s0 (snd (force_read_access_rights E s))"
  unfolding force_read_access_rights_def
  by (intro frame_intros frame_step) (simp_all add: frame_step)

lemma frame_get_ctrlvars [frame_step]:
  "frame s0 s \<Longrightarrow> frame s0 (snd (get_ctrlvars E t s))"
  unfolding get_ctrlvars_def
  by (intro frame_intros frame_step) (simp_all add: frame_step)

lemma frame_get_timevars [frame_step]:
  "frame s0 s \<Longrightarrow> frame s0 (snd (get_timevars E t s))"
  unfolding get_timevars_def
  by (intro frame_intros frame_step) (simp_all add: frame_step)

lemma frame_read_step [frame_step]:
  "frame s0 s \<Longrightarrow> frame s0 (snd (read_step E dt c t um md s))"
  unfolding read_step_def
  by (intro frame_intros frame_step) (simp_all add: frame_step)

lemma frame_coerce_step [frame_step]:
  "frame s0 s \<Longrightarrow> frame s0 (snd (coerce_step E md c es a n s))"
  unfolding coerce_step_def
  by (intro frame_intros frame_step) (simp_all add: frame_step)


lemma frame_gwm_plain:
  "frame s0 s \<Longrightarrow> frame s0 (snd (get_with_metadata E c False n t False u f ns s))"
  apply (subst get_with_metadata.simps)
  apply (simp only: simp_thms if_False Let_def)
  apply (intro frame_intros frame_step)
  apply (simp_all add: frame_step)
  done

lemma frame_getarg [frame_step]:
  "frame s0 s \<Longrightarrow> frame s0 (snd (getarg E arg s))"
  apply (subst getarg.simps)
  apply (intro frame_intros frame_step frame_gwm_plain)
  apply (simp_all add: frame_step)
  done

lemma frame_gwm_no_ctrl:
  "frame s0 s \<Longrightarrow> frame s0 (snd (get_with_metadata E c a n t False u f ns s))"
  apply (subst get_with_metadata.simps)
  apply (simp only: simp_thms if_False Let_def)
  apply (intro frame_intros frame_step)
  apply (simp_all add: frame_step)
  done

lemma frame_get_with_metadata [frame_step]:
  "frame s0 s \<Longrightarrow> frame s0 (snd (get_with_metadata E c a n t w u f ns s))"
  apply (subst get_with_metadata.simps)
  apply (simp only: Let_def)
  apply (intro frame_intros frame_step frame_gwm_no_ctrl)
  apply (simp_all add: frame_step)
  done

lemma frame_get [frame_step]:
  "frame s0 s \<Longrightarrow> frame s0 (snd (get E c a n t w u s))"
  unfolding get_def
  by (intro frame_intros frame_step) (simp_all add: frame_step)

lemma frame_enum_strs [frame_step]:
  "frame s0 s \<Longrightarrow> frame s0 (snd (enum_strs E s))"
  unfolding enum_strs_def by (rule frame_getarg)

lemma wait_for_connection_connected:
  "connected s \<Longrightarrow> wait_for_connection E t s = (Inr True, s)"
  by (simp add: wait_for_connection_def)

lemma frame_new_no_write:
  "frame s0 s \<Longrightarrow> filter is_write (drop (length (trace s0)) (trace s)) = []"
  unfolding frame_def by (simp add: list_all_iff filter_empty_conv)

section \<open>Properties of the response translator\<close>

lemma get_or_None_upd:
  "get_or_None (m(k \<mapsto> v)) k' = (if k' = k then v else get_or_None m k')"
  by (simp add: get_or_None_def)

lemma mapM_enum_lookup_tuple:
  "mapM (enum_lookup (PTuple ns)) (map PInt idxs)
   = Inr (map (\<lambda>i. if 0 \<le> i \<and> i < int (length ns) then ns ! nat i else PStr '''') idxs)"
  by (induction idxs) (auto simp: bind_def py_index_def)

lemma mapM_enum_lookup_list:
  "mapM (enum_lookup (PList ns)) (map PInt idxs)
   = Inr (map (\<lambda>i. if 0 \<le> i \<and> i < int (length ns) then ns ! nat i else PStr '''') idxs)"
  by (induction idxs) (auto simp: bind_def py_index_def)

lemma copy_attrs_other:
  "arg \<notin> snd ` set am \<Longrightarrow> copy_attrs am d ret arg = ret arg"
  by (induction am d ret rule: copy_attrs.induct) (auto split: option.splits)

lemma copy_attrs_append:
  "copy_attrs (am @ [(attr, arg)]) d ret arg
   = (case d attr of None \<Rightarrow> copy_attrs am d ret arg | Some v \<Rightarrow> Some v)"
  by (induction am d ret rule: copy_attrs.induct) (simp_all split: option.splits)

text \<open>
  The entry \<^verbatim>\<open>enum_strs\<close> that \<^verbatim>\<open>_parse_dbr_metadata\<close> starts from is the attribute
  \<^verbatim>\<open>enum_strings\<close> of the response's metadata, absent when the response has none.
\<close>

lemma copy_attrs_enum_strs:
  "copy_attrs arg_map d Map.empty ''enum_strs'' = d ''enum_strings''"
proof -
  have "arg_map = butlast arg_map @ [(''enum_strings'', ''enum_strs'')]"
    by (simp add: arg_map_def)
  then have "copy_attrs arg_map d Map.empty ''enum_strs''
      = (case d ''enum_strings'' of
           None \<Rightarrow> copy_attrs (butlast arg_map) d Map.empty ''enum_strs''
         | Some v \<Rightarrow> Some v)"
    using copy_attrs_append [of "butlast arg_map" "''enum_strings''" "''enum_strs''" d Map.empty]
    by simp
  moreover have "copy_attrs (butlast arg_map) d Map.empty ''enum_strs'' = None"
    by (subst copy_attrs_other) (simp_all add: arg_map_def)
  ultimately show ?thesis
    by (simp split: option.splits)
qed

text \<open>
  C7: for an enumerated full type the translator resolves every raw index against the
  enum-name list of the response (\<open>info ''enum_strs''\<close>, when it is there and not empty)
  and else against the list the caller supplies. With \<open>names\<close> the list so chosen, the
  display text \<^verbatim>\<open>char_value\<close> is, element by element, the name at the index, the empty
  string for an index outside the range of the list, and the marker \<^verbatim>\<open>None\<close> when no
  list is available at all (\<open>names = PNone\<close>); a one-element result is unwrapped. The
  three outcomes are a name, \<^verbatim>\<open>''\<close> and \<^verbatim>\<open>None\<close>, and no error is raised.
\<close>

theorem C7_enum_display_text:
  assumes "in_types full_type (enum_types E)"
    and "\<not> in_types full_type (char_types E)"
    and "\<not> in_types full_type (string_types E)"
    and "parse_dbr_metadata E (metadata cmd) = Inr info"
    and "scalarify (data cmd) (data_type cmd) (data_count cmd) = Inr sv"
    and "data cmd = PArray native (map PInt idxs)"
    and "truthy (get_or_None info ''enum_strs'') = Inr carried"
    and "names = (if carried then get_or_None info ''enum_strs'' else enum_strings)"
    and "names = PNone \<or> names = PTuple ns \<or> names = PList ns"
  shows "\<exists>info'. read_response_to_pyepics E full_type cmd enum_strings = Inr info'
           \<and> info' ''char_value'' = Some (unwrap_single
                (if names = PNone then replicate (length idxs) PNone
                 else map (\<lambda>i. if 0 \<le> i \<and> i < int (length ns) then ns ! nat i
                                else PStr '''') idxs))"
proof -
  let ?info = "info(''raw_value'' \<mapsto> data cmd, ''value'' \<mapsto> sv)"
  have step: "read_response_to_pyepics E full_type cmd enum_strings
      = bind (if names = PNone
              then bind (py_len (data cmd)) (\<lambda>n. Inr (replicate n PNone))
              else bind (py_iter (data cmd)) (\<lambda>idxs. mapM (enum_lookup names) idxs))
          (\<lambda>char_value. Inr (?info(''char_value'' \<mapsto> unwrap_single char_value)))"
    using assms(1-5,7,8)
    by (simp add: read_response_to_pyepics_def bind_def Let_def get_or_None_upd)
  show ?thesis
  proof (cases "names = PNone")
    case True
    then show ?thesis
      using assms(6) by (simp add: step bind_def)
  next
    case False
    with assms(9) consider "names = PTuple ns" | "names = PList ns" by auto
    then show ?thesis
    proof cases
      case 1
      then show ?thesis
        using assms(6) by (simp add: step bind_def mapM_enum_lookup_tuple)
    next
      case 2
      then show ?thesis
        using assms(6) by (simp add: step bind_def mapM_enum_lookup_list)
    qed
  qed
qed

theorem C7_enum_display_text_witness:
  "result_key ''char_value''
     (read_response_to_pyepics caproto_env (PChannelType ChannelType_CTRL_ENUM)
        \<lparr>data = PArray True [PInt 1, PInt 5], data_type = ChannelType_CTRL_ENUM, data_count = 2,
         metadata = [''enum_strings'' \<mapsto> PTuple [PBytes ''off'', PBytes ''on'']]\<rparr> PNone)
     = Inr (Some (PList [PStr ''on'', PStr '''']))
   \<and> result_key ''char_value''
     (read_response_to_pyepics caproto_env (PChannelType ChannelType_TIME_ENUM)
        \<lparr>data = PArray True [PInt 1, PInt 5], data_type = ChannelType_TIME_ENUM, data_count = 2,
         metadata = Map.empty\<rparr> PNone)
     = Inr (Some (PList [PNone, PNone]))"
proof -
  let ?md = "[''enum_strings'' \<mapsto> PTuple [PBytes ''off'', PBytes ''on'']]"
  let ?info = "[''enum_strs'' \<mapsto> PTuple [PStr ''off'', PStr ''on'']]"
  let ?c1 = "\<lparr>data = PArray True [PInt 1, PInt 5], data_type = ChannelType_CTRL_ENUM,
              data_count = 2, metadata = ?md\<rparr>"
  let ?c2 = "\<lparr>data = PArray True [PInt 1, PInt 5], data_type = ChannelType_TIME_ENUM,
              data_count = 2, metadata = Map.empty\<rparr>"
  have p1: "parse_dbr_metadata caproto_env (metadata ?c1) = Inr ?info"
    by (simp add: parse_dbr_metadata_def arg_map_def bind_def get_or_None_def caproto_env_def)
  have p2: "parse_dbr_metadata caproto_env (metadata ?c2) = Inr Map.empty"
    by (simp add: parse_dbr_metadata_def arg_map_def bind_def get_or_None_def)
  have t1: "in_types (PChannelType ChannelType_CTRL_ENUM) (enum_types caproto_env)"
      "\<not> in_types (PChannelType ChannelType_CTRL_ENUM) (char_types caproto_env)"
      "\<not> in_types (PChannelType ChannelType_CTRL_ENUM) (string_types caproto_env)"
    by (simp_all add: caproto_env_def)
  have t2: "in_types (PChannelType ChannelType_TIME_ENUM) (enum_types caproto_env)"
      "\<not> in_types (PChannelType ChannelType_TIME_ENUM) (char_types caproto_env)"
      "\<not> in_types (PChannelType ChannelType_TIME_ENUM) (string_types caproto_env)"
    by (simp_all add: caproto_env_def)
  have s1: "scalarify (data ?c1) (data_type ?c1) (data_count ?c1) = Inr (data ?c1)"
    by (simp add: scalarify_def)
  have s2: "scalarify (data ?c2) (data_type ?c2) (data_count ?c2) = Inr (data ?c2)"
    by (simp add: scalarify_def)
  have d1: "data ?c1 = PArray True (map PInt [1, 5])" by simp
  have d2: "data ?c2 = PArray True (map PInt [1, 5])" by simp
  have tr1: "truthy (get_or_None ?info ''enum_strs'') = Inr True"
    by (simp add: get_or_None_def)
  have tr2: "truthy (get_or_None Map.empty ''enum_strs'') = Inr False"
    by (simp add: get_or_None_def)
  have n1: "PTuple [PStr ''off'', PStr ''on'']
            = (if True then get_or_None ?info ''enum_strs'' else PNone)"
    by (simp add: get_or_None_def)
  have n2: "PNone = (if False then get_or_None Map.empty ''enum_strs'' else PNone)"
    by simp
  from C7_enum_display_text [OF t1 p1 s1 d1 tr1 n1, of "[PStr ''off'', PStr ''on'']"]
  have r1: "result_key ''char_value'' (read_response_to_pyepics caproto_env
              (PChannelType ChannelType_CTRL_ENUM) ?c1 PNone)
            = Inr (Some (PList [PStr ''on'', PStr '''']))"
    by (auto simp: result_key_def unwrap_single_def)
  from C7_enum_display_text [OF t2 p2 s2 d2 tr2 n2, of "[]"]
  have r2: "result_key ''char_value'' (read_response_to_pyepics caproto_env
              (PChannelType ChannelType_TIME_ENUM) ?c2 PNone)
            = Inr (Some (PList [PNone, PNone]))"
    by (auto simp: result_key_def unwrap_single_def numeral_2_eq_2)
  from r1 r2 show ?thesis by simp
qed

section \<open>Properties of value coercion\<close>

text \<open>
  C5, as stated, fails: the condition of the first branch of \<^verbatim>\<open>_pyepics_get_value\<close> is
  \<^verbatim>\<open>as_string and (full_type in ca.char_types) or full_type in ca.string_types\<close>, and
  \<^verbatim>\<open>and\<close> binds tighter than \<^verbatim>\<open>or\<close>. For a string type the display value is
  returned although \<^verbatim>\<open>as_string\<close> is false: on the one-element array
  \<^verbatim>\<open>[b'abc']\<close> of a \<^verbatim>\<open>STRING\<close> channel the result is the text \<^verbatim>\<open>'abc'\<close>, where the
  raw value path gives the element \<^verbatim>\<open>b'abc'\<close>.
\<close>

theorem C5_string_type_counterexample:
  "pyepics_get_value caproto_env (PArray True [PBytes ''abc'']) (PStr ''abc'')
       (PChannelType ChannelType_STRING) (PInt 1) None PNone False True
       = Inr (PStr ''abc'')
   \<and> raw_value_path (PArray True [PBytes ''abc'']) (PInt 1) None True
       = Inr (PBytes ''abc'')"
  by (simp add: pyepics_get_value_def raw_value_path_def caproto_env_def bind_def
      py_index_def)

text \<open>
  C5, amended: value coercion returns the display (char) value when \<^verbatim>\<open>as_string\<close> is
  true and the full type is a character type, and for every string type whatever
  \<^verbatim>\<open>as_string\<close> is; when \<^verbatim>\<open>as_string\<close> is false and the full type is not a string
  type, the raw value path is taken.
\<close>

theorem C5_display_value_branch:
  "((as_string \<and> in_types full_type (char_types E)) \<or> in_types full_type (string_types E)
      \<longrightarrow> pyepics_get_value E v string_value full_type native_count requested_count
            enum_strings as_string as_numpy = Inr string_value)
   \<and> (\<not> as_string \<and> \<not> in_types full_type (string_types E)
      \<longrightarrow> pyepics_get_value E v string_value full_type native_count requested_count
            enum_strings as_string as_numpy
          = raw_value_path v native_count requested_count as_numpy)"
  by (simp add: pyepics_get_value_def)

theorem C5_display_value_branch_witness:
  "pyepics_get_value caproto_env (PArray True [PInt 104, PInt 105, PInt 0]) (PStr ''hi'')
       (PChannelType ChannelType_CHAR) (PInt 3) None PNone True True = Inr (PStr ''hi'')
   \<and> pyepics_get_value caproto_env (PArray True [PBytes ''abc'']) (PStr ''abc'')
       (PChannelType ChannelType_TIME_STRING) (PInt 1) None PNone False True
       = Inr (PStr ''abc'')
   \<and> pyepics_get_value caproto_env (PArray True [PInt 104, PInt 105, PInt 0]) (PStr ''hi'')
       (PChannelType ChannelType_CHAR) (PInt 3) None PNone False True
       = Inr (PArray True [PInt 104, PInt 105, PInt 0])"
proof -
  have a: "True \<and> in_types (PChannelType ChannelType_CHAR) (char_types caproto_env)
           \<or> in_types (PChannelType ChannelType_CHAR) (string_types caproto_env)"
    by (simp add: caproto_env_def)
  have b: "False \<and> in_types (PChannelType ChannelType_TIME_STRING) (char_types caproto_env)
           \<or> in_types (PChannelType ChannelType_TIME_STRING) (string_types caproto_env)"
    by (simp add: caproto_env_def)
  have c: "\<not> False \<and> \<not> in_types (PChannelType ChannelType_CHAR) (string_types caproto_env)"
    by (simp add: caproto_env_def)
  have r: "raw_value_path (PArray True [PInt 104, PInt 105, PInt 0]) (PInt 3) None True
           = Inr (PArray True [PInt 104, PInt 105, PInt 0])"
    by (simp add: raw_value_path_def bind_def)
  from C5_display_value_branch [of True "PChannelType ChannelType_CHAR" caproto_env] a
    C5_display_value_branch [of False "PChannelType ChannelType_TIME_STRING" caproto_env] b
    C5_display_value_branch [of False "PChannelType ChannelType_CHAR" caproto_env] c r
  show ?thesis by simp
qed

section \<open>Properties of the on-demand read\<close>

lemma bind_Inr_iff:
  "bind m f = Inr y \<longleftrightarrow> (\<exists>x. m = Inr x \<and> f x = Inr y)"
  by (cases m) (simp_all add: bind_def)

lemma parse_dbr_metadata_typefull:
  "parse_dbr_metadata E d = Inr info \<Longrightarrow> info ''typefull'' = None"
proof -
  have c: "copy_attrs arg_map d Map.empty ''typefull'' = None"
    by (subst copy_attrs_other) (simp_all add: arg_map_def)
  assume "parse_dbr_metadata E d = Inr info"
  then show ?thesis
    using c
    by (auto simp: parse_dbr_metadata_def bind_Inr_iff Let_def
        split: if_splits option.splits prod.splits)
qed

lemma translator_typefull:
  assumes "read_response_to_pyepics E tf cmd es = Inr info"
  shows "info ''typefull'' = None"
proof -
  from assms obtain i0 where p: "parse_dbr_metadata E (metadata cmd) = Inr i0"
    by (auto simp: read_response_to_pyepics_def bind_Inr_iff)
  from parse_dbr_metadata_typefull [OF p] assms p show ?thesis
    by (auto simp: read_response_to_pyepics_def bind_Inr_iff Let_def split: if_splits)
qed


lemma read_step_typefull:
  "args (snd (read_step E dt count timeout um md self)) ''typefull'' = args self ''typefull''"
proof -
  have "args self ''typefull'' = Some tf \<Longrightarrow> read_response_to_pyepics E tf cmd es = Inr info
        \<Longrightarrow> (args self ++ info) ''typefull'' = Some tf" for tf cmd es info
    using translator_typefull [of E tf cmd es info] by (simp add: map_add_def)
  then show ?thesis
    by (auto simp: read_step_def do_read_def Let_def py_lookup_def bind_Inr_iff
        translator_typefull map_add_def
        split: sum.splits option.splits)
qed


lemma snd_coerce_step [simp]: "snd (coerce_step E md c es a n s) = s"
  by (simp add: coerce_step_def split: sum.splits)

lemma frame_trace_ext: "frame s0 s \<Longrightarrow> \<exists>effs. trace s = trace s0 @ effs"
  unfolding frame_ext by blast

lemma forced_type_use_monitor:
  "forced_type E as_string um dt0 = Inr (dt, use_monitor)
   \<Longrightarrow> use_monitor = (um \<and> (as_string \<or> dt0 \<notin> set (char_types E)))"
  by (auto simp: forced_type_def split: if_splits option.splits)

lemma gwm_connected:
  assumes "connected self"
    and "\<not> (with_ctrlvars \<and> type_key_of form' self \<notin> set [''control'', ''native''])"
  shows "get_with_metadata E count' as_string as_numpy timeout' with_ctrlvars use_monitor'
           form' ns self
    = (case bind (field_type E (type_key_of form' self) self)
              (forced_type E as_string use_monitor') of
         Inl e \<Rightarrow> (Inl e, self)
       | Inr (dt, use_monitor) \<Rightarrow>
           (case read_step E dt (resolve_count count' self)
                   (resolve_timeout timeout' (resolve_count count' self)) use_monitor
                   (if use_monitor' then args self else Map.empty) self of
              (Inl e, s) \<Rightarrow> (Inl e, s)
            | (Inr md, s) \<Rightarrow>
                (case py_lookup (args s) ''typefull'' of
                   Inl e \<Rightarrow> (Inl e, s)
                 | Inr tf \<Rightarrow>
                     (case (if as_string \<and> in_types tf (enum_types E)
                            then getarg E ''enum_strs'' s
                            else (Inr PNone, s)) of
                        (Inl e, s) \<Rightarrow> (Inl e, s)
                      | (Inr es, s) \<Rightarrow>
                          coerce_step E md (resolve_count count' self) es as_string as_numpy
                            s))))"
proof (cases use_monitor')
  case True
  show ?thesis
    using assms True
    by (subst get_with_metadata.simps)
      (auto simp: wait_for_connection_connected Let_def)
next
  case False
  show ?thesis
    using assms False
    by (subst get_with_metadata.simps)
      (auto simp: wait_for_connection_connected Let_def)
qed

text \<open>
  On a connected handle the reads behind a property leave the connection and the cached
  full type as they are.
\<close>

lemma keeps_refl [simp]: "keeps s s"
  by (simp add: keeps_def)

lemma keeps_trans: "keeps s s' \<Longrightarrow> keeps s' s'' \<Longrightarrow> keeps s s''"
  by (simp add: keeps_def)

lemma keeps_connected: "keeps s s' \<Longrightarrow> connected s' = connected s"
  by (simp add: keeps_def connected_def)

lemma keeps_invoke: "keeps s (snd (invoke E f ps kw s))"
  by (simp add: invoke_def keeps_def Let_def)

lemma keeps_call_access_callbacks:
  "keeps s0 s \<Longrightarrow> keeps s0 (call_access_callbacks E cbs r w s)"
proof (induction cbs arbitrary: s)
  case Nil
  then show ?case by simp
next
  case (Cons cb cbs)
  from Cons.prems keeps_invoke [of s E cb "[PBool r, PBool w]" "[''pv'' \<mapsto> PSelf]"]
  have "keeps s0 (snd (invoke E cb [PBool r, PBool w] [''pv'' \<mapsto> PSelf] s))"
    by (rule keeps_trans)
  from Cons.IH [OF this] show ?case by simp
qed

lemma keeps_access_rights_changed:
  "keeps s (snd (access_rights_changed E (caproto_pv s) ar s))"
proof -
  have "keeps s (s\<lparr>caproto_pv := caproto_pv s, args := (args s)(''write_access'' \<mapsto> a,
                       ''read_access'' \<mapsto> b, ''access'' \<mapsto> c)\<rparr>)" for a b c
    by (simp add: keeps_def)
  then show ?thesis
    by (simp add: access_rights_changed_def Let_def keeps_call_access_callbacks)
qed

lemma keeps_read_step: "keeps s (snd (read_step E dt count timeout um md s))"
  using read_step_typefull [of E dt count timeout um md s]
  by (auto simp: keeps_def read_step_def do_read_def Let_def split: sum.splits)

lemma keeps_read_and_update: "keeps s (snd (read_and_update E dtype timeout s))"
  by (auto simp: keeps_def read_and_update_def do_read_def Let_def py_lookup_def
      map_add_def translator_typefull split: sum.splits option.splits)

lemma keeps_force_read_access_rights:
  "connected s \<Longrightarrow> keeps s (snd (force_read_access_rights E s))"
  by (simp add: force_read_access_rights_def wait_for_connection_connected
      keeps_access_rights_changed split: option.splits)

lemma keeps_get_ctrlvars:
  assumes "connected s"
  shows "keeps s (snd (get_ctrlvars E t s))"
proof (cases "field_type E ''control'' s")
  case (Inl e)
  with assms show ?thesis
    by (simp add: get_ctrlvars_def wait_for_connection_connected)
next
  case (Inr dtype)
  let ?t = "case t of None \<Rightarrow> 5 | Some t \<Rightarrow> t"
  obtain r1 s1 where r: "read_and_update E dtype ?t s = (r1, s1)"
    by (cases "read_and_update E dtype ?t s")
  have k1: "keeps s s1"
    using keeps_read_and_update [of s E dtype ?t] r by simp
  then have c1: "connected s1"
    using assms by (simp add: keeps_connected)
  have k2: "keeps s (snd (force_read_access_rights E s1))"
    using k1 keeps_force_read_access_rights [OF c1, of E] by (rule keeps_trans)
  show ?thesis
    using assms Inr r k1 k2
    by (auto simp: get_ctrlvars_def wait_for_connection_connected split: sum.splits prod.splits)
qed

lemma keeps_get_timevars:
  assumes "connected s"
  shows "keeps s (snd (get_timevars E t s))"
proof (cases "field_type E ''time'' s")
  case (Inl e)
  with assms show ?thesis
    by (simp add: get_timevars_def wait_for_connection_connected)
next
  case (Inr dtype)
  let ?t = "case t of None \<Rightarrow> 5 | Some t \<Rightarrow> t"
  obtain r1 s1 where r: "read_and_update E dtype ?t s = (r1, s1)"
    by (cases "read_and_update E dtype ?t s")
  have k1: "keeps s s1"
    using keeps_read_and_update [of s E dtype ?t] r by simp
  show ?thesis
    using assms Inr r k1
    by (auto simp: get_timevars_def wait_for_connection_connected split: sum.splits prod.splits)
qed

lemma keeps_gwm_plain:
  assumes "connected s"
  shows "keeps s (snd (get_with_metadata E c False n t False u f ns s))"
proof (cases "bind (field_type E (type_key_of f s) s) (forced_type E False u)")
  case (Inl e)
  have nest: "\<not> (False \<and> type_key_of f s \<notin> set [''control'', ''native''])"
    by simp
  show ?thesis
    unfolding gwm_connected [OF assms nest] by (simp add: Inl)
next
  case (Inr p)
  obtain dt um where p: "p = (dt, um)" by (cases p)
  have nest: "\<not> (False \<and> type_key_of f s \<notin> set [''control'', ''native''])"
    by simp
  let ?r = "read_step E dt (resolve_count c s) (resolve_timeout t (resolve_count c s)) um
              (if u then args s else Map.empty) s"
  obtain r1 s1 where r: "?r = (r1, s1)" by (cases ?r)
  have k1: "keeps s s1"
    using keeps_read_step [of s E dt "resolve_count c s"
        "resolve_timeout t (resolve_count c s)" um "if u then args s else Map.empty"] r
    by simp
  show ?thesis
    unfolding gwm_connected [OF assms nest]
    using k1 r by (auto simp: Inr p split: sum.splits)
qed

lemma keeps_getarg:
  assumes "connected s"
  shows "keeps s (snd (getarg E arg s))"
proof -
  let ?g = "get_with_metadata E None False True (Some None) False True (Some (form s)) False s"
  obtain r1 s1 where g: "?g = (r1, s1)" by (cases ?g)
  have k1: "keeps s s1"
    using keeps_gwm_plain [OF assms, of E None True "Some None" True "Some (form s)" False] g
    by simp
  then have c1: "connected s1" using assms by (simp add: keeps_connected)
  obtain r2 s2 where c2: "get_ctrlvars E None s1 = (r2, s2)" by (cases "get_ctrlvars E None s1")
  obtain r3 s3 where c3: "get_timevars E None s1 = (r3, s3)" by (cases "get_timevars E None s1")
  obtain r4 s4 where c4: "get_ctrlvars E None s = (r4, s4)" by (cases "get_ctrlvars E None s")
  obtain r5 s5 where c5: "get_timevars E None s = (r5, s5)" by (cases "get_timevars E None s")
  have k2: "keeps s s2" "keeps s s3"
    using k1 keeps_get_ctrlvars [OF c1, of E None] keeps_get_timevars [OF c1, of E None] c2 c3
    by (auto intro: keeps_trans)
  have k3: "keeps s s4" "keeps s s5"
    using keeps_get_ctrlvars [OF assms, of E None] keeps_get_timevars [OF assms, of E None]
      c4 c5
    by auto
  show ?thesis
    apply (subst getarg.simps)
    using k1 k2 k3 g c2 c3 c4 c5
    apply (auto split: sum.splits)
    done
qed

lemma keeps_enum_strs: "connected s \<Longrightarrow> keeps s (snd (enum_strs E s))"
  unfolding enum_strs_def by (rule keeps_getarg)

lemma monitored_pv_facts:
  "connected monitored_pv"
  "type_key_of None monitored_pv = ''time''"
  "field_type demo_env ''time'' monitored_pv = Inr ChannelType_TIME_ENUM"
  "args monitored_pv ''value'' = Some (PArray True [PInt 0, PInt 1])"
  "args monitored_pv ''typefull'' = Some (PChannelType ChannelType_TIME_ENUM)"
  "auto_monitor_sub monitored_pv
   = Some \<lparr>sub_data_type = PChannelType ChannelType_TIME_ENUM, sub_data_count = None,
           sub_mask = DEFAULT_SUBSCRIPTION_MASK\<rparr>"
  "default_count monitored_pv = None"
  "trace monitored_pv = []"
  by (simp_all add: monitored_pv_def cached_pv_def demo_pv_eq connected_def demo_defs
      type_key_of_def field_type_def py_lookup_def bind_def)

lemma getarg_cached:
  "args s ''value'' = Some v \<Longrightarrow> v \<noteq> PNone \<Longrightarrow> args s arg = Some a \<Longrightarrow> a \<noteq> PNone
   \<Longrightarrow> getarg E arg s = (Inr a, s)"
  by (subst getarg.simps) (simp add: py_lookup_def get_or_None_def)

lemma read_required_eq:
  assumes "\<not> um \<or> sub = None \<or> cached = PNone \<or> count = None \<or> py_len cached = Inr n"
  shows "read_required um sub cached count
         = Inr (spec_read_required um sub (cached = PNone) count n)"
  using assms
  by (auto simp: read_required_def spec_read_required_def bind_def split: option.splits)

text \<open>
  When a count is requested, the three first disjuncts are false and the cached value has
  no length (a number, as \<^verbatim>\<open>_scalarify\<close> leaves it for a count of 1), \<^verbatim>\<open>len\<close> raises
  and the call ends before it reads.
\<close>

lemma read_required_no_length:
  assumes "um" "sub \<noteq> None" "cached \<noteq> PNone" "py_len cached = Inl e"
  shows "read_required um sub cached (Some c) = Inl e"
  using assms by (simp add: read_required_def bind_def)

lemma read_step_trace:
  assumes "args s ''value'' = Some cached"
    and "\<not> um \<or> auto_monitor_sub s = None \<or> cached = PNone \<or> count = None
         \<or> py_len cached = Inr n"
  shows "trace (snd (read_step E dt count timeout um md s))
     = trace s @ (if spec_read_required um (auto_monitor_sub s) (cached = PNone) count n
                  then [Eff_read dt count timeout] else [])"
  using assms(1) read_required_eq [OF assms(2)]
  by (simp add: read_step_def py_lookup_def do_read_def Let_def split: sum.splits)

lemma gwm_unfold:
  assumes "connected self"
  shows "get_with_metadata E count' as_string as_numpy timeout' with_ctrlvars use_monitor'
           form' ns self
    = (case md_step E count' as_string as_numpy timeout' with_ctrlvars use_monitor' form' self of
         (Inl e, s) \<Rightarrow> (Inl e, s)
       | (Inr md, s) \<Rightarrow>
           (case bind (field_type E (type_key_of form' self) s)
                   (forced_type E as_string use_monitor') of
              Inl e \<Rightarrow> (Inl e, s)
            | Inr (dt, use_monitor) \<Rightarrow>
                (case read_step E dt (resolve_count count' self)
                        (resolve_timeout timeout' (resolve_count count' self)) use_monitor
                        md s of
                   (Inl e, s) \<Rightarrow> (Inl e, s)
                 | (Inr md, s) \<Rightarrow>
                     (case py_lookup (args s) ''typefull'' of
                        Inl e \<Rightarrow> (Inl e, s)
                      | Inr tf \<Rightarrow>
                          (case (if as_string \<and> in_types tf (enum_types E)
                                 then getarg E ''enum_strs'' s
                                 else (Inr PNone, s)) of
                             (Inl e, s) \<Rightarrow> (Inl e, s)
                           | (Inr es, s) \<Rightarrow>
                               coerce_step E md (resolve_count count' self) es as_string
                                 as_numpy s)))))"
  apply (subst get_with_metadata.simps)
  apply (simp add: wait_for_connection_connected [OF assms] md_step_def Let_def)
  done

text \<open>
  C2, amended: on a connected handle, for a call of \<^verbatim>\<open>get_with_metadata\<close> that gets as
  far as the decision (the block that sets \<^verbatim>\<open>md\<close> returns \<open>md0\<close> and leaves the handle
  as \<open>s0\<close>, which is the handle of the call unless \<^verbatim>\<open>with_ctrlvars\<close> made the nested
  control-form call; the type code is found), the read
  \<^verbatim>\<open>read(data_type=dt, data_count=count, timeout=timeout)\<close> is issued exactly when the
  specification's condition holds of \<open>s0\<close>, with \<^verbatim>\<open>use_monitor\<close> forced to false for
  character data not asked for as a string; when the requested count exceeds the length
  of the cached value, the condition holds. After this block the call does what the lookup
  of the enum names does, for \<^verbatim>\<open>as_string\<close> on an enumerated type when the block has not
  raised, and nothing else; the lookup does nothing when the value and the names are
  cached. The statement leaves out a requested count on a cached value that has no length
  with the three other disjuncts false.
\<close>

theorem C2_network_read:
  assumes conn: "connected self"
    and pre: "md_step E count' as_string as_numpy timeout' with_ctrlvars use_monitor' form' self
              = (Inr md0, s0)"
    and ft: "field_type E (type_key_of form' self) s0 = Inr dt0"
    and fo: "forced_type E as_string use_monitor' dt0 = Inr (dt, use_monitor)"
    and cv: "args s0 ''value'' = Some cached"
    and tf: "args s0 ''typefull'' = Some tf"
    and ln: "\<not> use_monitor \<or> auto_monitor_sub s0 = None \<or> cached = PNone
             \<or> resolve_count count' self = None \<or> py_len cached = Inr n"
  shows "use_monitor = (use_monitor' \<and> (as_string \<or> dt0 \<notin> set (char_types E)))
    \<and> (\<not> (with_ctrlvars \<and> type_key_of form' self \<notin> set [''control'', ''native''])
         \<longrightarrow> s0 = self)
    \<and> trace (snd (read_step E dt (resolve_count count' self)
                     (resolve_timeout timeout' (resolve_count count' self)) use_monitor md0 s0))
        = trace s0
          @ (if spec_read_required use_monitor (auto_monitor_sub s0) (cached = PNone)
                  (resolve_count count' self) n
             then [Eff_read dt (resolve_count count' self)
                     (resolve_timeout timeout' (resolve_count count' self))]
             else [])
    \<and> snd (get_with_metadata E count' as_string as_numpy timeout' with_ctrlvars
               use_monitor' form' ns self)
        = (if as_string \<and> in_types tf (enum_types E)
              \<and> \<not> isl (fst (read_step E dt (resolve_count count' self)
                               (resolve_timeout timeout' (resolve_count count' self))
                               use_monitor md0 s0))
           then snd (enum_strs E
                  (snd (read_step E dt (resolve_count count' self)
                          (resolve_timeout timeout' (resolve_count count' self))
                          use_monitor md0 s0)))
           else snd (read_step E dt (resolve_count count' self)
                       (resolve_timeout timeout' (resolve_count count' self))
                       use_monitor md0 s0))
    \<and> (\<forall>s v e. args s ''value'' = Some v \<and> v \<noteq> PNone
              \<and> args s ''enum_strs'' = Some e \<and> e \<noteq> PNone
          \<longrightarrow> enum_strs E s = (Inr e, s))
    \<and> (\<forall>c. resolve_count count' self = Some c \<and> py_len cached = Inr n \<and> int n < c
          \<longrightarrow> spec_read_required use_monitor (auto_monitor_sub s0) (cached = PNone)
                (resolve_count count' self) n)"
proof -
  let ?count = "resolve_count count' self"
  let ?timeout = "resolve_timeout timeout' ?count"
  let ?read = "read_step E dt ?count ?timeout use_monitor md0 s0"
  have 1: "use_monitor = (use_monitor' \<and> (as_string \<or> dt0 \<notin> set (char_types E)))"
    using fo by (rule forced_type_use_monitor)
  have 2: "\<not> (with_ctrlvars \<and> type_key_of form' self \<notin> set [''control'', ''native''])
         \<longrightarrow> s0 = self"
    using pre by (auto simp: md_step_def Let_def split: if_splits)
  have 3: "trace (snd ?read)
        = trace s0
          @ (if spec_read_required use_monitor (auto_monitor_sub s0) (cached = PNone) ?count n
             then [Eff_read dt ?count ?timeout] else [])"
    using cv ln by (rule read_step_trace)
  have 5: "\<forall>s v e. args s ''value'' = Some v \<and> v \<noteq> PNone
              \<and> args s ''enum_strs'' = Some e \<and> e \<noteq> PNone
          \<longrightarrow> enum_strs E s = (Inr e, s)"
    unfolding enum_strs_def by (auto intro: getarg_cached)
  have 6: "\<forall>c. ?count = Some c \<and> py_len cached = Inr n \<and> int n < c
          \<longrightarrow> spec_read_required use_monitor (auto_monitor_sub s0) (cached = PNone) ?count n"
    by (simp add: spec_read_required_def)
  obtain r1 s1 where rs: "?read = (r1, s1)"
    by (cases ?read)
  have tf1: "args s1 ''typefull'' = Some tf"
    using read_step_typefull [of E dt ?count ?timeout use_monitor md0 s0] rs tf by simp
  obtain r2 s2 where ga: "getarg E ''enum_strs'' s1 = (r2, s2)"
    by (cases "getarg E ''enum_strs'' s1")
  have g: "get_with_metadata E count' as_string as_numpy timeout' with_ctrlvars
             use_monitor' form' ns self
      = (case r1 of
           Inl e \<Rightarrow> (Inl e, s1)
         | Inr md \<Rightarrow>
             (case (if as_string \<and> in_types tf (enum_types E) then (r2, s2)
                    else (Inr PNone, s1)) of
                (Inl e, s) \<Rightarrow> (Inl e, s)
              | (Inr es, s) \<Rightarrow>
                  coerce_step E md ?count es as_string as_numpy s))"
    unfolding gwm_unfold [OF conn] pre
    using rs
    by (cases r1) (simp_all add: ft fo ga tf1 bind_def py_lookup_def)
  have "snd (get_with_metadata E count' as_string as_numpy timeout' with_ctrlvars
               use_monitor' form' ns self)
        = (if as_string \<and> in_types tf (enum_types E) \<and> \<not> isl r1 then s2 else s1)"
    unfolding g by (cases r1; cases r2) simp_all
  then have 4: "snd (get_with_metadata E count' as_string as_numpy timeout' with_ctrlvars
               use_monitor' form' ns self)
        = (if as_string \<and> in_types tf (enum_types E) \<and> \<not> isl (fst ?read)
           then snd (enum_strs E (snd ?read))
           else snd ?read)"
    by (simp add: rs enum_strs_def ga)
  from 1 2 3 4 5 6 show ?thesis
    by (intro conjI)
qed

theorem C2_network_read_witness:
  "trace (snd (get_with_metadata demo_env (Some 5) False True None False True None False
                 monitored_pv))
     = [Eff_read ChannelType_TIME_ENUM (Some 5) (resolve_timeout None (Some 5))]
   \<and> trace (snd (get_with_metadata demo_env None False True None False True None False
                 monitored_pv))
     = []"
proof -
  have pre: "md_step demo_env c False True None False True None monitored_pv
             = (Inr (args monitored_pv), monitored_pv)" for c
    by (simp add: md_step_def)
  have ft: "field_type demo_env (type_key_of None monitored_pv) monitored_pv
            = Inr ChannelType_TIME_ENUM"
    by (simp add: monitored_pv_facts)
  have fo: "forced_type demo_env False True ChannelType_TIME_ENUM
            = Inr (ChannelType_TIME_ENUM, True)"
    by (simp add: forced_type_def demo_defs)
  have ln: "\<not> True \<or> auto_monitor_sub monitored_pv = None \<or> PArray True [PInt 0, PInt 1] = PNone
            \<or> resolve_count c monitored_pv = None
            \<or> py_len (PArray True [PInt 0, PInt 1]) = Inr 2" for c
    by simp
  have ne: "\<not> (False \<and> in_types (PChannelType ChannelType_TIME_ENUM) (enum_types demo_env)
               \<and> \<not> isl x)" for x :: "exc + pydict"
    by simp
  note t5 = C2_network_read [OF monitored_pv_facts(1) pre ft fo monitored_pv_facts(4,5) ln,
      of "Some 5" False]
  note t0 = C2_network_read [OF monitored_pv_facts(1) pre ft fo monitored_pv_facts(4,5) ln,
      of None False]
  from t5 have 1: "trace (snd (get_with_metadata demo_env (Some 5) False True None False True
                 None False monitored_pv))
     = [Eff_read ChannelType_TIME_ENUM (Some 5) (resolve_timeout None (Some 5))]"
    by (simp add: monitored_pv_facts resolve_count_def spec_read_required_def)
  from t0 have 2: "trace (snd (get_with_metadata demo_env None False True None False True None
                 False monitored_pv))
     = []"
    by (simp add: monitored_pv_facts resolve_count_def spec_read_required_def)
  from 1 2 show ?thesis by simp
qed

lemma unnamed_pv_facts:
  "connected unnamed_pv"
  "auto_monitor_sub unnamed_pv \<noteq> None"
  "args unnamed_pv ''value'' = Some (PInt 0)"
  "args unnamed_pv ''enum_strs'' = Some PNone"
  "trace unnamed_pv = []"
  by (simp_all add: unnamed_pv_def demo_pv_eq connected_def demo_defs fields_def)

text \<open>
  C2, as stated, fails on its only-if half: \<^verbatim>\<open>as_string\<close> on an enumerated type reads
  \<^verbatim>\<open>self.enum_strs\<close>, and \<^verbatim>\<open>_getarg\<close> calls \<^verbatim>\<open>get_ctrlvars()\<close> when the names are
  not cached. On the connected handle with a live subscription and a cached value, the
  call with \<^verbatim>\<open>as_string=True\<close>, \<^verbatim>\<open>use_monitor=True\<close> and no count issues a control-form
  read.
\<close>

theorem C2_enum_names_counterexample:
  "connected unnamed_pv
   \<and> auto_monitor_sub unnamed_pv \<noteq> None
   \<and> args unnamed_pv ''value'' = Some (PInt 0)
   \<and> trace unnamed_pv = []
   \<and> trace (snd (get_with_metadata demo_env None True True None False True None False
                   unnamed_pv))
     = [Eff_read ChannelType_CTRL_ENUM None 5]"
  by (simp add: unnamed_pv_facts)
    (simp add: unnamed_pv_def demo_pv_eq eval_defs demo_defs enum_name_def)

section \<open>Properties of the scalar collapse\<close>

lemma translator_value:
  assumes "\<not> in_types full_type (string_types E)"
    and "read_response_to_pyepics E full_type cmd enum_strings = Inr info"
  shows "\<exists>sv. scalarify (data cmd) (data_type cmd) (data_count cmd) = Inr sv
            \<and> info ''value'' = Some sv"
  using assms
  by (auto simp: read_response_to_pyepics_def bind_Inr_iff Let_def split: if_splits)

lemma translator_string_value:
  assumes "in_types full_type (string_types E)"
    and "\<not> in_types full_type (char_types E)"
    and "read_response_to_pyepics E full_type cmd enum_strings = Inr info"
  shows "\<exists>vs ds. py_iter (data cmd) = Inr vs \<and> mapM (decode_bytes E) vs = Inr ds
            \<and> info ''value'' = Some (unwrap_single ds)"
  using assms
  by (auto simp: read_response_to_pyepics_def bind_Inr_iff Let_def)

lemma get_from_cache:
  assumes conn: "connected self"
    and dc: "default_count self = None"
    and ft: "field_type E (type_key_of (Some (form self)) self) self = Inr dt"
    and nch: "dt \<notin> set (char_types E)"
    and tf: "args self ''typefull'' = Some tf" "\<not> in_types tf (string_types E)"
    and nc: "args self ''count'' = Some nc"
    and cv: "args self ''value'' = Some cached"
    and rq: "auto_monitor_sub self \<noteq> None \<and> cached \<noteq> PNone"
    and rv: "args self ''raw_value'' = Some rv"
    and chv: "args self ''char_value'' = Some chv"
  shows "get E None False True None False True self
         = (raw_value_path rv nc None True, self)"
proof -
  have nest: "\<not> (False \<and> type_key_of (Some (form self)) self \<notin> set [''control'', ''native''])"
    by simp
  have fo: "forced_type E False True dt = Inr (dt, True)"
    using nch by (simp add: forced_type_def)
  have rs: "read_step E dt None t True (args self) self = (Inr (args self), self)" for t
    using rq cv by (auto simp: read_step_def py_lookup_def read_required_def)
  have c: "coerce_step E (args self) None PNone False True self
           = (case raw_value_path rv nc None True of
                Inl e \<Rightarrow> (Inl e, self)
              | Inr v \<Rightarrow> (Inr ((args self)(''value'' \<mapsto> v)), self))"
    using tf rv chv nc
    by (simp add: coerce_step_def py_lookup_def bind_def pyepics_get_value_def)
  show ?thesis
    unfolding get_def gwm_connected [OF conn nest]
    using ft fo tf(1) dc
    by (simp add: bind_def rs c resolve_count_def py_lookup_def split: sum.splits)
qed

lemma parse_dbr_metadata_other:
  assumes "parse_dbr_metadata E d = Inr info"
    and "k \<in> set [''count'', ''raw_value'', ''char_value'', ''value'']"
  shows "info k = None"
proof -
  have c: "copy_attrs arg_map d Map.empty k = None"
    using assms(2) by (subst copy_attrs_other) (auto simp: arg_map_def)
  from assms show ?thesis
    using c
    by (auto simp: parse_dbr_metadata_def bind_Inr_iff Let_def
        split: if_splits option.splits prod.splits)
qed

lemma translator_raw_value:
  assumes "read_response_to_pyepics E tf cmd es = Inr info"
  shows "info ''raw_value'' = Some (data cmd) \<and> info ''count'' = None
         \<and> (\<exists>c. info ''char_value'' = Some c)"
proof -
  from assms obtain i0 where p: "parse_dbr_metadata E (metadata cmd) = Inr i0"
    by (auto simp: read_response_to_pyepics_def bind_Inr_iff)
  have "i0 ''count'' = None"
    by (rule parse_dbr_metadata_other [OF p]) simp
  with assms p show ?thesis
    by (auto simp: read_response_to_pyepics_def bind_Inr_iff Let_def split: if_splits)
qed

lemma raw_value_path_array:
  "raw_value_path (PArray native ys) (PInt nc) None True
   = Inr (if nc = 1 \<and> length ys = 1 then ys ! 0 else PArray True ys)"
  by (cases ys) (auto simp: raw_value_path_def bind_def py_index_def)

lemma get_from_network:
  assumes conn: "connected self"
    and dc: "default_count self = None"
    and ft: "field_type E (type_key_of (Some (form self)) self) self = Inr dt"
    and nch: "dt \<notin> set (char_types E)"
    and tf: "args self ''typefull'' = Some tf" "\<not> in_types tf (string_types E)"
    and nc: "args self ''count'' = Some nc"
    and cv: "args self ''value'' = Some cached"
    and rq: "auto_monitor_sub self = None \<or> cached = PNone"
    and rd: "chan_read E (trace self @ [Eff_read dt None 1]) dt None 1 = Inr cmd"
    and es: "args self ''enum_strs'' = Some es"
    and tr: "read_response_to_pyepics E tf cmd es = Inr info"
  shows "fst (get E None False True None False True self)
         = raw_value_path (data cmd) nc None True"
proof -
  have nest: "\<not> (False \<and> type_key_of (Some (form self)) self \<notin> set [''control'', ''native''])"
    by simp
  have fo: "forced_type E False True dt = Inr (dt, True)"
    using nch by (simp add: forced_type_def)
  note k = translator_raw_value [OF tr] translator_typefull [OF tr]
  let ?s = "self\<lparr>trace := trace self @ [Eff_read dt None 1], args := args self ++ info\<rparr>"
  have rs: "read_step E dt None 1 True (args self) self = (Inr (args self ++ info), ?s)"
    using cv rq rd es tf(1) tr
    by (auto simp: read_step_def py_lookup_def read_required_def do_read_def Let_def bind_def)
  have a: "args ?s ''typefull'' = Some tf" "args ?s ''count'' = Some nc"
    using k tf(1) nc by (simp_all add: map_add_def)
  obtain c where ch: "info ''char_value'' = Some c" using k by blast
  have m: "(args self ++ info) ''raw_value'' = Some (data cmd)"
    "(args self ++ info) ''char_value'' = Some c"
    using k(1) ch by (simp_all add: map_add_def)
  have c: "coerce_step E (args self ++ info) None PNone False True ?s
           = (case raw_value_path (data cmd) nc None True of
                Inl e \<Rightarrow> (Inl e, ?s)
              | Inr v \<Rightarrow> (Inr ((args self ++ info)(''value'' \<mapsto> v)), ?s))"
    using m tf(2) a
    by (simp add: coerce_step_def py_lookup_def bind_def pyepics_get_value_def)
  show ?thesis
    unfolding get_def gwm_connected [OF conn nest]
    using ft fo dc a(1)
    by (simp add: bind_def rs c resolve_count_def resolve_timeout_def py_lookup_def
        split: sum.splits)
qed

text \<open>
  C6, amended. \<^verbatim>\<open>_scalarify\<close>: for a declared element count of 1 and a data type that is
  no character or string type, the result is the bare first element; for any other count,
  and for the data types \<^verbatim>\<open>CHAR\<close> and \<^verbatim>\<open>STRING\<close>, the data is kept as it is. The
  translator stores that result as \<^verbatim>\<open>'value'\<close> for every full type that is no string type;
  for a string full type \<^verbatim>\<open>'value'\<close> is the decoded text, a bare string for exactly one
  element and a list otherwise. \<^verbatim>\<open>get()\<close> with its default arguments, on a connected
  handle built without a count, the type no string type and the data not read as
  characters, returns the bare element when the native count is 1 and the raw value has
  one element, and else the raw array with all its elements. The raw value is the cached
  one when the handle has a live subscription and a cached value, and else the data of
  the response that the call reads.
\<close>

theorem C6_scalar_collapse:
  "(count = 1 \<and> ntype \<notin> set spec_char_or_string_types
      \<longrightarrow> scalarify dat ntype count = py_getitem dat (PInt 0)
          \<and> scalarify (PArray native (x # xs)) ntype count = Inr x)
   \<and> (count \<noteq> 1 \<or> ntype = ChannelType_CHAR \<or> ntype = ChannelType_STRING
      \<longrightarrow> scalarify dat ntype count = Inr dat)
   \<and> (\<not> in_types full_type (string_types E)
        \<and> read_response_to_pyepics E full_type cmd enum_strings = Inr info
      \<longrightarrow> (\<exists>sv. scalarify (data cmd) (data_type cmd) (data_count cmd) = Inr sv
                \<and> info ''value'' = Some sv))
   \<and> (in_types full_type (string_types E) \<and> \<not> in_types full_type (char_types E)
        \<and> read_response_to_pyepics E full_type cmd enum_strings = Inr info
      \<longrightarrow> (\<exists>vs ds. py_iter (data cmd) = Inr vs \<and> mapM (decode_bytes E) vs = Inr ds
                \<and> info ''value'' = Some (unwrap_single ds)))
   \<and> (connected self \<and> default_count self = None
        \<and> field_type E (type_key_of (Some (form self)) self) self = Inr dt
        \<and> dt \<notin> set (char_types E)
        \<and> args self ''typefull'' = Some tf \<and> \<not> in_types tf (string_types E)
        \<and> args self ''count'' = Some (PInt nc)
        \<and> args self ''value'' = Some cached
        \<and> auto_monitor_sub self \<noteq> None \<and> cached \<noteq> PNone
        \<and> args self ''raw_value'' = Some (PArray native ys)
        \<and> args self ''char_value'' = Some chv
      \<longrightarrow> fst (get E None False True None False True self)
          = Inr (if nc = 1 \<and> length ys = 1 then ys ! 0 else PArray True ys))
   \<and> (connected self \<and> default_count self = None
        \<and> field_type E (type_key_of (Some (form self)) self) self = Inr dt
        \<and> dt \<notin> set (char_types E)
        \<and> args self ''typefull'' = Some tf \<and> \<not> in_types tf (string_types E)
        \<and> args self ''count'' = Some (PInt nc)
        \<and> args self ''value'' = Some cached
        \<and> (auto_monitor_sub self = None \<or> cached = PNone)
        \<and> chan_read E (trace self @ [Eff_read dt None 1]) dt None 1 = Inr rsp
        \<and> args self ''enum_strs'' = Some es
        \<and> read_response_to_pyepics E tf rsp es = Inr rinfo
        \<and> data rsp = PArray native ys
      \<longrightarrow> fst (get E None False True None False True self)
          = Inr (if nc = 1 \<and> length ys = 1 then ys ! 0 else PArray True ys))"
proof (intro conjI impI)
  show "scalarify dat ntype count = py_getitem dat (PInt 0)"
    if "count = 1 \<and> ntype \<notin> set spec_char_or_string_types"
    using that by (simp add: scalarify_def spec_char_or_string_types_def)
  show "scalarify (PArray native (x # xs)) ntype count = Inr x"
    if "count = 1 \<and> ntype \<notin> set spec_char_or_string_types"
    using that by (simp add: scalarify_def spec_char_or_string_types_def py_index_def)
  show "scalarify dat ntype count = Inr dat"
    if "count \<noteq> 1 \<or> ntype = ChannelType_CHAR \<or> ntype = ChannelType_STRING"
    using that by (auto simp: scalarify_def)
  show "\<exists>sv. scalarify (data cmd) (data_type cmd) (data_count cmd) = Inr sv
                \<and> info ''value'' = Some sv"
    if "\<not> in_types full_type (string_types E)
        \<and> read_response_to_pyepics E full_type cmd enum_strings = Inr info"
    using that translator_value by blast
  show "\<exists>vs ds. py_iter (data cmd) = Inr vs \<and> mapM (decode_bytes E) vs = Inr ds
                \<and> info ''value'' = Some (unwrap_single ds)"
    if "in_types full_type (string_types E) \<and> \<not> in_types full_type (char_types E)
        \<and> read_response_to_pyepics E full_type cmd enum_strings = Inr info"
    using that translator_string_value by blast
  show "fst (get E None False True None False True self)
          = Inr (if nc = 1 \<and> length ys = 1 then ys ! 0 else PArray True ys)"
    if a: "connected self \<and> default_count self = None
        \<and> field_type E (type_key_of (Some (form self)) self) self = Inr dt
        \<and> dt \<notin> set (char_types E)
        \<and> args self ''typefull'' = Some tf \<and> \<not> in_types tf (string_types E)
        \<and> args self ''count'' = Some (PInt nc)
        \<and> args self ''value'' = Some cached
        \<and> auto_monitor_sub self \<noteq> None \<and> cached \<noteq> PNone
        \<and> args self ''raw_value'' = Some (PArray native ys)
        \<and> args self ''char_value'' = Some chv"
  proof -
    have "get E None False True None False True self
         = (raw_value_path (PArray native ys) (PInt nc) None True, self)"
      using a by (intro get_from_cache [of self E dt tf _ cached _ chv]) simp_all
    then show ?thesis
      by (simp add: raw_value_path_array)
  qed
  show "fst (get E None False True None False True self)
          = Inr (if nc = 1 \<and> length ys = 1 then ys ! 0 else PArray True ys)"
    if a: "connected self \<and> default_count self = None
        \<and> field_type E (type_key_of (Some (form self)) self) self = Inr dt
        \<and> dt \<notin> set (char_types E)
        \<and> args self ''typefull'' = Some tf \<and> \<not> in_types tf (string_types E)
        \<and> args self ''count'' = Some (PInt nc)
        \<and> args self ''value'' = Some cached
        \<and> (auto_monitor_sub self = None \<or> cached = PNone)
        \<and> chan_read E (trace self @ [Eff_read dt None 1]) dt None 1 = Inr rsp
        \<and> args self ''enum_strs'' = Some es
        \<and> read_response_to_pyepics E tf rsp es = Inr rinfo
        \<and> data rsp = PArray native ys"
  proof -
    have "fst (get E None False True None False True self)
         = raw_value_path (data rsp) (PInt nc) None True"
      using a by (intro get_from_network [of self E dt tf _ cached rsp es rinfo]) simp_all
    then show ?thesis
      using a by (simp add: raw_value_path_array)
  qed
qed

theorem C6_scalar_collapse_witness:
  "scalarify (PArray True [PInt 7]) ChannelType_TIME_DOUBLE 1 = Inr (PInt 7)
   \<and> scalarify (PArray True [PInt 7, PInt 8]) ChannelType_TIME_DOUBLE 2
     = Inr (PArray True [PInt 7, PInt 8])
   \<and> fst (get demo_env None False True None False True monitored_pv)
     = Inr (PArray True [PInt 0, PInt 1])
   \<and> fst (get demo_env None False True None False True demo_pv) = Inr (PInt 0)"
proof -
  have 1: "(1::int) = 1 \<and> ChannelType_TIME_DOUBLE \<notin> set spec_char_or_string_types"
    by (simp add: spec_char_or_string_types_def)
  have 2: "(2::int) \<noteq> 1 \<or> ChannelType_TIME_DOUBLE = ChannelType_CHAR
           \<or> ChannelType_TIME_DOUBLE = ChannelType_STRING"
    by simp
  have 3: "connected monitored_pv \<and> default_count monitored_pv = None
        \<and> field_type demo_env (type_key_of (Some (form monitored_pv)) monitored_pv)
            monitored_pv = Inr ChannelType_TIME_ENUM
        \<and> ChannelType_TIME_ENUM \<notin> set (char_types demo_env)
        \<and> args monitored_pv ''typefull'' = Some (PChannelType ChannelType_TIME_ENUM)
        \<and> \<not> in_types (PChannelType ChannelType_TIME_ENUM) (string_types demo_env)
        \<and> args monitored_pv ''count'' = Some (PInt 2)
        \<and> args monitored_pv ''value'' = Some (PArray True [PInt 0, PInt 1])
        \<and> auto_monitor_sub monitored_pv \<noteq> None
        \<and> PArray True [PInt 0, PInt 1] \<noteq> PNone
        \<and> args monitored_pv ''raw_value'' = Some (PArray True [PInt 0, PInt 1])
        \<and> args monitored_pv ''char_value'' = Some (PList [PStr ''off'', PStr ''on''])"
    by (simp add: monitored_pv_def cached_pv_def demo_pv_eq connected_def demo_defs
        type_key_of_def field_type_def py_lookup_def bind_def)
  obtain rinfo where ri: "read_response_to_pyepics demo_env (PChannelType ChannelType_TIME_ENUM)
        (demo_response ChannelType_TIME_ENUM) PNone = Inr rinfo"
    by (simp add: read_response_to_pyepics_def parse_dbr_metadata_def arg_map_def bind_def
        get_or_None_def scalarify_def py_index_def demo_defs Let_def)
  have 4: "connected demo_pv \<and> default_count demo_pv = None
        \<and> field_type demo_env (type_key_of (Some (form demo_pv)) demo_pv) demo_pv
            = Inr ChannelType_TIME_ENUM
        \<and> ChannelType_TIME_ENUM \<notin> set (char_types demo_env)
        \<and> args demo_pv ''typefull'' = Some (PChannelType ChannelType_TIME_ENUM)
        \<and> \<not> in_types (PChannelType ChannelType_TIME_ENUM) (string_types demo_env)
        \<and> args demo_pv ''count'' = Some (PInt 1)
        \<and> args demo_pv ''value'' = Some PNone
        \<and> (auto_monitor_sub demo_pv = None \<or> PNone = PNone)
        \<and> chan_read demo_env (trace demo_pv @ [Eff_read ChannelType_TIME_ENUM None 1])
              ChannelType_TIME_ENUM None 1 = Inr (demo_response ChannelType_TIME_ENUM)
        \<and> args demo_pv ''enum_strs'' = Some PNone
        \<and> read_response_to_pyepics demo_env (PChannelType ChannelType_TIME_ENUM)
              (demo_response ChannelType_TIME_ENUM) PNone = Inr rinfo
        \<and> data (demo_response ChannelType_TIME_ENUM) = PArray True [PInt 0]"
    using ri
    by (simp add: demo_pv_eq connected_def demo_defs type_key_of_def field_type_def
        py_lookup_def bind_def fields_def)
  note t = C6_scalar_collapse [where count = 1 and ntype = ChannelType_TIME_DOUBLE
      and dat = "PArray True [PInt 7]" and native = True and x = "PInt 7" and xs = "[]"
      and self = monitored_pv and E = demo_env
      and dt = ChannelType_TIME_ENUM and cached = "PArray True [PInt 0, PInt 1]"
      and tf = "PChannelType ChannelType_TIME_ENUM" and ys = "[PInt 0, PInt 1]"
      and chv = "PList [PStr ''off'', PStr ''on'']" and nc = 2]
  note u = C6_scalar_collapse [where count = 2 and ntype = ChannelType_TIME_DOUBLE
      and dat = "PArray True [PInt 7, PInt 8]"]
  note v = C6_scalar_collapse [where self = demo_pv and E = demo_env
      and dt = ChannelType_TIME_ENUM and cached = PNone
      and tf = "PChannelType ChannelType_TIME_ENUM" and ys = "[PInt 0]" and native = True
      and nc = 1 and rsp = "demo_response ChannelType_TIME_ENUM" and es = PNone
      and rinfo = rinfo]
  from t 1 have a: "scalarify (PArray True [PInt 7]) ChannelType_TIME_DOUBLE 1 = Inr (PInt 7)"
    by blast
  from u 2 have b: "scalarify (PArray True [PInt 7, PInt 8]) ChannelType_TIME_DOUBLE 2
     = Inr (PArray True [PInt 7, PInt 8])"
    by blast
  from t 3 have c: "fst (get demo_env None False True None False True monitored_pv)
     = Inr (PArray True [PInt 0, PInt 1])"
    by simp
  from v 4 have d: "fst (get demo_env None False True None False True demo_pv) = Inr (PInt 0)"
    by simp
  from a b c d show ?thesis by simp
qed

text \<open>
  C6, as stated, fails twice. For string types the translator replaces \<^verbatim>\<open>'value'\<close> by
  the decoded text and unwraps a single element, so on the response \<^verbatim>\<open>[b'abc']\<close> of a
  \<^verbatim>\<open>STRING\<close> channel \<^verbatim>\<open>'value'\<close> is the bare string \<^verbatim>\<open>'abc'\<close>, not an array. And
  \<^verbatim>\<open>_pyepics_get_value\<close> unwraps the single element only when no count is requested:
  on the handle built with \<^verbatim>\<open>count=1\<close> on a channel of one \<^verbatim>\<open>LONG\<close> element, \<^verbatim>\<open>get()\<close>
  returns the array of one element, not a bare scalar.
\<close>

theorem C6_string_unwrap_counterexample:
  "result_key ''value''
     (read_response_to_pyepics caproto_env (PChannelType ChannelType_STRING)
        \<lparr>data = PList [PBytes ''abc''], data_type = ChannelType_STRING, data_count = 1,
         metadata = Map.empty\<rparr> PNone)
   = Inr (Some (PStr ''abc''))
   \<and> args counted_pv ''count'' = Some (PInt 1)
   \<and> fst (get demo_env None False True None False True counted_pv)
     = Inr (PArray True [PInt 0])"
proof (intro conjI)
  show "result_key ''value''
     (read_response_to_pyepics caproto_env (PChannelType ChannelType_STRING)
        \<lparr>data = PList [PBytes ''abc''], data_type = ChannelType_STRING, data_count = 1,
         metadata = Map.empty\<rparr> PNone)
   = Inr (Some (PStr ''abc''))"
    by (simp add: result_key_def read_response_to_pyepics_def parse_dbr_metadata_def
        arg_map_def bind_def get_or_None_def scalarify_def caproto_env_def unwrap_single_def
        Let_def)
  show "args counted_pv ''count'' = Some (PInt 1)"
    by (simp add: counted_pv_eq)
  show "fst (get demo_env None False True None False True counted_pv)
     = Inr (PArray True [PInt 0])"
    by (simp add: counted_pv_eq get_def eval_defs demo_defs long_channel_def)
qed


section \<open>Properties of put\<close>

lemma frame_resolve_enum [frame_step]:
  "frame s0 s \<Longrightarrow> frame s0 (snd (resolve_enum E v s))"
proof (cases v)
  case (PStr str)
  assume f: "frame s0 s"
  obtain r1 s1 where e1: "enum_strs E s = (r1, s1)" by (cases "enum_strs E s")
  obtain r2 s2 where e2: "enum_strs E s1 = (r2, s2)" by (cases "enum_strs E s1")
  have f1: "frame s0 s1" using frame_enum_strs [OF f, of E] e1 by simp
  have f2: "frame s0 s2" using frame_enum_strs [OF f1, of E] e2 by simp
  show ?thesis
    using f1 f2
    by (simp add: resolve_enum_def PStr e1 e2 split: sum.splits exc.splits)
qed (simp_all add: resolve_enum_def)

lemma index_of_None: "index_of x xs = None \<longleftrightarrow> x \<notin> set xs"
  by (induction xs) auto

lemma index_of_Some:
  "index_of x xs = Some i \<Longrightarrow> i < length xs \<and> xs ! i = x \<and> (\<forall>j<i. xs ! j \<noteq> x)"
proof (induction xs arbitrary: i)
  case Nil
  then show ?case by simp
next
  case (Cons y ys)
  show ?case
  proof (cases "y = x")
    case True
    with Cons.prems show ?thesis by simp
  next
    case False
    with Cons.prems obtain k where k: "index_of x ys = Some k" "i = Suc k"
      by auto
    from Cons.IH [OF k(1)] False k(2) show ?thesis
      by (auto simp: nth_Cons split: nat.splits)
  qed
qed

lemma issue_write_trace:
  "\<exists>rest. trace (snd (issue_write E v wait timeout use_complete callback cbd s))
      = trace s @ Eff_write v (wait \<and> (use_complete \<or> callback \<noteq> PNone \<or> wait))
                    (callback \<noteq> PNone \<or> use_complete) timeout
                    (use_complete \<or> callback \<noteq> PNone \<or> wait) # rest
      \<and> list_all (\<lambda>e. \<not> is_write e) rest"
  unfolding issue_write_def Let_def invoke_def
  by (auto split: sum.splits option.splits)

lemma frame_issue_write_writes:
  assumes "frame s0 s"
  shows "filter is_write (drop (length (trace s0))
           (trace (snd (issue_write E v wait timeout use_complete callback cbd s))))
         = [Eff_write v (wait \<and> (use_complete \<or> callback \<noteq> PNone \<or> wait))
              (callback \<noteq> PNone \<or> use_complete) timeout
              (use_complete \<or> callback \<noteq> PNone \<or> wait)]"
proof -
  from assms obtain effs where t: "trace s = trace s0 @ effs"
      and n: "list_all (\<lambda>e. \<not> is_write e) effs"
    unfolding frame_ext by blast
  from issue_write_trace [of E v wait timeout use_complete callback cbd s]
  obtain rest where r: "trace (snd (issue_write E v wait timeout use_complete callback cbd s))
      = trace s @ Eff_write v (wait \<and> (use_complete \<or> callback \<noteq> PNone \<or> wait))
                    (callback \<noteq> PNone \<or> use_complete) timeout
                    (use_complete \<or> callback \<noteq> PNone \<or> wait) # rest"
      and nr: "list_all (\<lambda>e. \<not> is_write e) rest"
    by blast
  have "filter is_write effs = []" "filter is_write rest = []"
    using n nr by (simp_all add: list_all_iff filter_empty_conv)
  then show ?thesis
    by (simp add: r t)
qed

text \<open>
  Where a run of \<^verbatim>\<open>put\<close> ends: before the write, having issued none, or in the
  final block that issues the write.
\<close>

lemma put_cases:
  "frame self (snd (put E v wait timeout' use_complete callback cbd' self))
   \<or> (\<exists>s v'. frame self s
        \<and> snd (put E v wait timeout' use_complete callback cbd' self)
          = snd (issue_write E v' wait (case timeout' of None \<Rightarrow> Some 30 | Some t \<Rightarrow> t)
                   use_complete callback (case cbd' of None \<Rightarrow> [] | Some d \<Rightarrow> d) s))"
proof -
  let ?t = "case timeout' of None \<Rightarrow> Some 5 | Some t \<Rightarrow> t"
  obtain r1 s1 where w: "wait_for_connection E ?t self = (r1, s1)"
    by (cases "wait_for_connection E ?t self")
  have f1: "frame self s1"
    using frame_wait_for_connection [of self self E ?t] w by simp
  obtain r2 s2 where e: "resolve_enum E v s1 = (r2, s2)"
    by (cases "resolve_enum E v s1")
  have f2: "frame self s2"
    using frame_resolve_enum [OF f1, of E v] e by simp
  show ?thesis
    using f1 f2
    by (auto simp: put_def w e Let_def split: sum.splits)
qed

text \<open>
  C9: every write that a call of \<^verbatim>\<open>put\<close> issues has \<^verbatim>\<open>notify\<close> equal to
  \<^verbatim>\<open>use_complete or callback is not None or wait\<close>, and its \<^verbatim>\<open>wait\<close> is the caller's
  \<^verbatim>\<open>wait\<close> when \<^verbatim>\<open>notify\<close> is true and false otherwise. On a connected handle with write
  access, for a value that is no text for an enumerated type and that normalises to \<open>v'\<close>,
  \<^verbatim>\<open>put\<close> is its final block on \<open>v'\<close> and issues exactly this one write.
\<close>

theorem C9_notify:
  "(\<forall>e \<in> set (drop (length (trace self))
                 (trace (snd (put E v wait timeout' use_complete callback cbd' self)))).
      is_write e \<longrightarrow>
        (\<exists>v' t. e = Eff_write v' (wait \<and> (use_complete \<or> callback \<noteq> PNone \<or> wait))
                      (callback \<noteq> PNone \<or> use_complete) t
                      (use_complete \<or> callback \<noteq> PNone \<or> wait)))
   \<and> (connected self \<and> args self ''write_access'' = Some (PBool True)
        \<and> args self ''typefull'' = Some tf \<and> \<not> (in_types tf (enum_types E) \<and> is_str v)
        \<and> normalise_value E tf v = Inr v'
      \<longrightarrow> put E v wait timeout' use_complete callback cbd' self
          = issue_write E v' wait (case timeout' of None \<Rightarrow> Some 30 | Some t \<Rightarrow> t)
              use_complete callback (case cbd' of None \<Rightarrow> [] | Some d \<Rightarrow> d) self
        \<and> filter is_write (drop (length (trace self))
              (trace (snd (put E v wait timeout' use_complete callback cbd' self))))
          = [Eff_write v' (wait \<and> (use_complete \<or> callback \<noteq> PNone \<or> wait))
               (callback \<noteq> PNone \<or> use_complete)
               (case timeout' of None \<Rightarrow> Some 30 | Some t \<Rightarrow> t)
               (use_complete \<or> callback \<noteq> PNone \<or> wait)])"
proof (intro conjI ballI impI)
  fix e
  assume e: "e \<in> set (drop (length (trace self))
                 (trace (snd (put E v wait timeout' use_complete callback cbd' self))))"
    and w: "is_write e"
  then have m: "e \<in> set (filter is_write (drop (length (trace self))
                 (trace (snd (put E v wait timeout' use_complete callback cbd' self)))))"
    by simp
  from put_cases [of self E v wait timeout' use_complete callback cbd']
  show "\<exists>v' t. e = Eff_write v' (wait \<and> (use_complete \<or> callback \<noteq> PNone \<or> wait))
                      (callback \<noteq> PNone \<or> use_complete) t
                      (use_complete \<or> callback \<noteq> PNone \<or> wait)"
  proof
    assume "frame self (snd (put E v wait timeout' use_complete callback cbd' self))"
    from frame_new_no_write [OF this] m show ?thesis by simp
  next
    assume "\<exists>s v'. frame self s
        \<and> snd (put E v wait timeout' use_complete callback cbd' self)
          = snd (issue_write E v' wait (case timeout' of None \<Rightarrow> Some 30 | Some t \<Rightarrow> t)
                   use_complete callback (case cbd' of None \<Rightarrow> [] | Some d \<Rightarrow> d) s)"
    then obtain s v' where f: "frame self s"
      and p: "snd (put E v wait timeout' use_complete callback cbd' self)
          = snd (issue_write E v' wait (case timeout' of None \<Rightarrow> Some 30 | Some t \<Rightarrow> t)
                   use_complete callback (case cbd' of None \<Rightarrow> [] | Some d \<Rightarrow> d) s)"
      by blast
    from m show ?thesis
      unfolding p frame_issue_write_writes [OF f] by simp
  qed
next
  assume a: "connected self \<and> args self ''write_access'' = Some (PBool True)
        \<and> args self ''typefull'' = Some tf \<and> \<not> (in_types tf (enum_types E) \<and> is_str v)
        \<and> normalise_value E tf v = Inr v'"
  have r: "in_types tf (enum_types E) \<Longrightarrow> resolve_enum E v self = (Inr v, self)"
    using a by (cases v) (simp_all add: resolve_enum_def)
  show p: "put E v wait timeout' use_complete callback cbd' self
          = issue_write E v' wait (case timeout' of None \<Rightarrow> Some 30 | Some t \<Rightarrow> t)
              use_complete callback (case cbd' of None \<Rightarrow> [] | Some d \<Rightarrow> d) self"
    using a r
    by (simp add: put_def wait_for_connection_connected py_lookup_def bind_def Let_def)
  show "filter is_write (drop (length (trace self))
              (trace (snd (put E v wait timeout' use_complete callback cbd' self))))
          = [Eff_write v' (wait \<and> (use_complete \<or> callback \<noteq> PNone \<or> wait))
               (callback \<noteq> PNone \<or> use_complete)
               (case timeout' of None \<Rightarrow> Some 30 | Some t \<Rightarrow> t)
               (use_complete \<or> callback \<noteq> PNone \<or> wait)]"
    unfolding p by (rule frame_issue_write_writes) simp
qed

lemma cached_pv_facts:
  "connected cached_pv" "args cached_pv ''write_access'' = Some (PBool True)"
  "args cached_pv ''typefull'' = Some (PChannelType ChannelType_TIME_ENUM)"
  "in_types (PChannelType ChannelType_TIME_ENUM) (enum_types demo_env)"
  "args cached_pv ''value'' = Some (PInt 0)"
  "args cached_pv ''enum_strs'' = Some (PTuple [PStr ''off'', PStr ''on''])"
  by (simp_all add: cached_pv_def demo_pv_eq connected_def demo_defs)

theorem C9_notify_witness:
  "filter is_write (drop (length (trace cached_pv))
      (trace (snd (put demo_env (PInt 1) False None False PNone None cached_pv))))
     = [Eff_write (PTuple [PInt 1]) False False (Some 30) False]
   \<and> filter is_write (drop (length (trace cached_pv))
      (trace (snd (put demo_env (PInt 1) True None False PNone None cached_pv))))
     = [Eff_write (PTuple [PInt 1]) True False (Some 30) True]"
proof -
  have n: "normalise_value demo_env (PChannelType ChannelType_TIME_ENUM) (PInt 1)
           = Inr (PTuple [PInt 1])"
    by (simp add: normalise_value_def bind_def py_index_def)
  have a: "connected cached_pv \<and> args cached_pv ''write_access'' = Some (PBool True)
        \<and> args cached_pv ''typefull'' = Some (PChannelType ChannelType_TIME_ENUM)
        \<and> \<not> (in_types (PChannelType ChannelType_TIME_ENUM) (enum_types demo_env)
               \<and> is_str (PInt 1))
        \<and> normalise_value demo_env (PChannelType ChannelType_TIME_ENUM) (PInt 1)
            = Inr (PTuple [PInt 1])"
    using cached_pv_facts n by simp
  from C9_notify [of cached_pv demo_env "PInt 1" False None False PNone None
      "PChannelType ChannelType_TIME_ENUM" "PTuple [PInt 1]",
      THEN conjunct2, rule_format, OF a, THEN conjunct2]
  have 1: "filter is_write (drop (length (trace cached_pv))
      (trace (snd (put demo_env (PInt 1) False None False PNone None cached_pv))))
     = [Eff_write (PTuple [PInt 1]) False False (Some 30) False]"
    by simp
  from C9_notify [of cached_pv demo_env "PInt 1" True None False PNone None
      "PChannelType ChannelType_TIME_ENUM" "PTuple [PInt 1]",
      THEN conjunct2, rule_format, OF a, THEN conjunct2]
  have 2: "filter is_write (drop (length (trace cached_pv))
      (trace (snd (put demo_env (PInt 1) True None False PNone None cached_pv))))
     = [Eff_write (PTuple [PInt 1]) True False (Some 30) True]"
    by simp
  from 1 2 show ?thesis by simp
qed

lemma normalise_value_int:
  "normalise_value E tf (PInt i) = Inr (PTuple [PInt i])"
  by (simp add: normalise_value_def bind_def py_index_def)

lemma put_enum_text:
  assumes a: "connected self \<and> args self ''write_access'' = Some (PBool True)
      \<and> args self ''typefull'' = Some tf \<and> in_types tf (enum_types E)
      \<and> enum_strs E self = (Inr (PTuple names), s1)"
  shows "put E (PStr str) wait timeout' use_complete callback cbd' self
    = (case index_of (PStr str) names of
         None \<Rightarrow>
           (case fst (enum_strs E s1) of Inl e \<Rightarrow> Inl e | Inr x \<Rightarrow> Inl CaprotoValueError,
            snd (enum_strs E s1))
       | Some i \<Rightarrow>
           issue_write E (PTuple [PInt (int i)]) wait
             (case timeout' of None \<Rightarrow> Some 30 | Some t \<Rightarrow> t) use_complete callback
             (case cbd' of None \<Rightarrow> [] | Some d \<Rightarrow> d) s1)"
proof -
  have k: "keeps self s1"
    using a keeps_enum_strs [of self E] by simp
  then have tf1: "args s1 ''typefull'' = Some tf"
    using a by (simp add: keeps_def)
  obtain r2 s2 where e2: "enum_strs E s1 = (r2, s2)" by (cases "enum_strs E s1")
  have r: "resolve_enum E (PStr str) self
      = (case index_of (PStr str) names of
           None \<Rightarrow> (case r2 of Inl e \<Rightarrow> Inl e | Inr x \<Rightarrow> Inl CaprotoValueError, s2)
         | Some i \<Rightarrow> (Inr (PInt (int i)), s1))"
    using a e2 by (simp add: resolve_enum_def split: option.splits sum.splits)
  show ?thesis
    using a r tf1 e2
    by (simp add: put_def wait_for_connection_connected py_lookup_def bind_def Let_def
        normalise_value_int split: option.splits sum.splits)
qed

text \<open>
  C4, amended: for a connected handle with write access and an enumerated type on which
  \<^verbatim>\<open>self.enum_strs\<close> yields the names, leaving the handle as \<open>s1\<close>. \<^verbatim>\<open>put\<close> of a text
  that is not among the names fails and has issued no write; the exception is
  CaprotoValueError whenever \<^verbatim>\<open>self.enum_strs\<close> can be read once more, for the message
  of the exception, and else what that reading raises; when the value and the names are
  in the cache, \<^verbatim>\<open>put\<close> leaves the whole handle, its cache and its effects, as it was
  (otherwise the reads that fetch the value and the names on demand have updated the
  cache). \<^verbatim>\<open>put\<close> of a text among the names goes on to the write with the value
  \<^verbatim>\<open>(i,)\<close>, \<open>i\<close> the first position of the text in the names.
\<close>

theorem C4_enum_put:
  "connected self \<and> args self ''write_access'' = Some (PBool True)
      \<and> args self ''typefull'' = Some tf \<and> in_types tf (enum_types E)
      \<and> enum_strs E self = (Inr (PTuple names), s1)
    \<longrightarrow> (PStr str \<notin> set names
          \<longrightarrow> fst (put E (PStr str) wait timeout' use_complete callback cbd' self)
              = (case fst (enum_strs E s1) of
                   Inl e \<Rightarrow> Inl e
                 | Inr x \<Rightarrow> Inl CaprotoValueError)
            \<and> filter is_write (drop (length (trace self))
                 (trace (snd (put E (PStr str) wait timeout' use_complete callback cbd'
                                self)))) = []
            \<and> (\<forall>cached. args self ''value'' = Some cached \<and> cached \<noteq> PNone
                  \<and> args self ''enum_strs'' = Some (PTuple names)
                \<longrightarrow> put E (PStr str) wait timeout' use_complete callback cbd' self
                    = (Inl CaprotoValueError, self)))
        \<and> (\<forall>i. index_of (PStr str) names = Some i
          \<longrightarrow> i < length names \<and> names ! i = PStr str \<and> (\<forall>j<i. names ! j \<noteq> PStr str)
              \<and> put E (PStr str) wait timeout' use_complete callback cbd' self
                = issue_write E (PTuple [PInt (int i)]) wait
                    (case timeout' of None \<Rightarrow> Some 30 | Some t \<Rightarrow> t) use_complete callback
                    (case cbd' of None \<Rightarrow> [] | Some d \<Rightarrow> d) s1)"
proof (intro impI)
  assume a: "connected self \<and> args self ''write_access'' = Some (PBool True)
      \<and> args self ''typefull'' = Some tf \<and> in_types tf (enum_types E)
      \<and> enum_strs E self = (Inr (PTuple names), s1)"
  note p = put_enum_text [OF a, of str wait timeout' use_complete callback cbd']
  show "(PStr str \<notin> set names
          \<longrightarrow> fst (put E (PStr str) wait timeout' use_complete callback cbd' self)
              = (case fst (enum_strs E s1) of
                   Inl e \<Rightarrow> Inl e
                 | Inr x \<Rightarrow> Inl CaprotoValueError)
            \<and> filter is_write (drop (length (trace self))
                 (trace (snd (put E (PStr str) wait timeout' use_complete callback cbd'
                                self)))) = []
            \<and> (\<forall>cached. args self ''value'' = Some cached \<and> cached \<noteq> PNone
                  \<and> args self ''enum_strs'' = Some (PTuple names)
                \<longrightarrow> put E (PStr str) wait timeout' use_complete callback cbd' self
                    = (Inl CaprotoValueError, self)))
        \<and> (\<forall>i. index_of (PStr str) names = Some i
          \<longrightarrow> i < length names \<and> names ! i = PStr str \<and> (\<forall>j<i. names ! j \<noteq> PStr str)
              \<and> put E (PStr str) wait timeout' use_complete callback cbd' self
                = issue_write E (PTuple [PInt (int i)]) wait
                    (case timeout' of None \<Rightarrow> Some 30 | Some t \<Rightarrow> t) use_complete callback
                    (case cbd' of None \<Rightarrow> [] | Some d \<Rightarrow> d) s1)"
  proof (intro conjI impI allI)
    assume u: "PStr str \<notin> set names"
    then have ix: "index_of (PStr str) names = None" by (simp add: index_of_None)
    show "fst (put E (PStr str) wait timeout' use_complete callback cbd' self)
              = (case fst (enum_strs E s1) of
                   Inl e \<Rightarrow> Inl e
                 | Inr x \<Rightarrow> Inl CaprotoValueError)"
      by (simp add: p ix)
    have f1: "frame self s1"
      using a frame_enum_strs [of self self E] by simp
    have "frame self (snd (enum_strs E s1))"
      using f1 by (rule frame_enum_strs)
    from frame_new_no_write [OF this]
    show "filter is_write (drop (length (trace self))
                 (trace (snd (put E (PStr str) wait timeout' use_complete callback cbd'
                                self)))) = []"
      by (simp add: p ix)
    show "put E (PStr str) wait timeout' use_complete callback cbd' self
                    = (Inl CaprotoValueError, self)"
      if c: "args self ''value'' = Some cached \<and> cached \<noteq> PNone
                  \<and> args self ''enum_strs'' = Some (PTuple names)" for cached
    proof -
      have g: "enum_strs E self = (Inr (PTuple names), self)"
        unfolding enum_strs_def using c by (intro getarg_cached [of self cached]) simp_all
      with a have "s1 = self" by simp
      then show ?thesis by (simp add: p ix g)
    qed
  next
    fix i
    assume i: "index_of (PStr str) names = Some i"
    from index_of_Some [OF i]
    show "i < length names" "names ! i = PStr str" by simp_all
    show "names ! j \<noteq> PStr str" if "j < i" for j
      using index_of_Some [OF i] that by simp
    show "put E (PStr str) wait timeout' use_complete callback cbd' self
                = issue_write E (PTuple [PInt (int i)]) wait
                    (case timeout' of None \<Rightarrow> Some 30 | Some t \<Rightarrow> t) use_complete callback
                    (case cbd' of None \<Rightarrow> [] | Some d \<Rightarrow> d) s1"
      by (simp add: p i)
  qed
qed

theorem C4_enum_put_witness:
  "put demo_env (PStr ''bogus'') False None False PNone None cached_pv
     = (Inl CaprotoValueError, cached_pv)
   \<and> put demo_env (PStr ''on'') False None False PNone None cached_pv
     = issue_write demo_env (PTuple [PInt 1]) False (Some 30) False PNone [] cached_pv"
proof -
  have g: "enum_strs demo_env cached_pv = (Inr (PTuple [PStr ''off'', PStr ''on'']), cached_pv)"
    unfolding enum_strs_def
    by (intro getarg_cached [of cached_pv "PInt 0"]) (simp_all add: cached_pv_facts)
  have a: "connected cached_pv \<and> args cached_pv ''write_access'' = Some (PBool True)
      \<and> args cached_pv ''typefull'' = Some (PChannelType ChannelType_TIME_ENUM)
      \<and> in_types (PChannelType ChannelType_TIME_ENUM) (enum_types demo_env)
      \<and> enum_strs demo_env cached_pv
          = (Inr (PTuple [PStr ''off'', PStr ''on'']), cached_pv)"
    using cached_pv_facts g by simp
  have b: "PStr ''bogus'' \<notin> set [PStr ''off'', PStr ''on'']" by simp
  have c: "index_of (PStr ''on'') [PStr ''off'', PStr ''on''] = Some 1" by simp
  have d: "args cached_pv ''value'' = Some (PInt 0) \<and> PInt 0 \<noteq> PNone
      \<and> args cached_pv ''enum_strs'' = Some (PTuple [PStr ''off'', PStr ''on''])"
    using cached_pv_facts by simp
  from C4_enum_put [of cached_pv "PChannelType ChannelType_TIME_ENUM" demo_env
      "[PStr ''off'', PStr ''on'']" cached_pv "''bogus''" False None False PNone None] a b d
  have 1: "put demo_env (PStr ''bogus'') False None False PNone None cached_pv
     = (Inl CaprotoValueError, cached_pv)"
    by blast
  from C4_enum_put [of cached_pv "PChannelType ChannelType_TIME_ENUM" demo_env
      "[PStr ''off'', PStr ''on'']" cached_pv "''on''" False None False PNone None] a c
  have 2: "put demo_env (PStr ''on'') False None False PNone None cached_pv
     = issue_write demo_env (PTuple [PInt 1]) False (Some 30) False PNone [] cached_pv"
    by simp
  from 1 2 show ?thesis by simp
qed

text \<open>
  C4, as stated, fails on its atomicity: reading \<^verbatim>\<open>self.enum_strs\<close> goes through
  \<^verbatim>\<open>_getarg\<close>, which calls \<^verbatim>\<open>self.get()\<close> when no value is cached and
  \<^verbatim>\<open>get_ctrlvars()\<close> when no names are cached, and both merge what they read into the
  cache. On the handle just connected, \<^verbatim>\<open>put('bogus')\<close> fails with CaprotoValueError and
  the cached value has changed from \<^verbatim>\<open>None\<close> to 0.
\<close>

theorem C4_cache_counterexample:
  "fst (put demo_env (PStr ''bogus'') False None False PNone None demo_pv)
     = Inl CaprotoValueError
   \<and> args demo_pv ''value'' = Some PNone
   \<and> args (snd (put demo_env (PStr ''bogus'') False None False PNone None demo_pv)) ''value''
     = Some (PInt 0)"
  by (simp add: demo_pv_eq eval_defs demo_defs)


section \<open>Properties of the callback registry\<close>

lemma frame_run_callback [frame_step]:
  "frame s0 s \<Longrightarrow> frame s0 (snd (run_callback E i s))"
  unfolding run_callback_def Let_def
  by (auto split: option.splits simp: frame_step)

lemma frame_run_callbacks_loop [frame_step]:
  "frame s0 s \<Longrightarrow> frame s0 (snd (run_callbacks_loop E is s))"
proof (induction "is" arbitrary: s)
  case Nil
  then show ?case by simp
next
  case (Cons i "is")
  show ?case
    unfolding run_callbacks_loop.simps
    by (intro frame_intros frame_step Cons)
qed

lemma frame_run_callbacks [frame_step]:
  "frame s0 s \<Longrightarrow> frame s0 (snd (run_callbacks E s))"
  by (simp add: run_callbacks_def frame_step)

lemma frame_on_changes [frame_step]:
  "frame s0 s \<Longrightarrow> frame s0 (snd (on_changes E cmd s))"
  unfolding on_changes_def
  by (intro frame_intros frame_step) (simp_all add: frame_step)

lemma frame_cb_count: "frame s0 s \<Longrightarrow> cb_count s = cb_count s0"
  by (simp add: frame_def)

lemma frame_callbacks: "frame s0 s \<Longrightarrow> callbacks s = callbacks s0"
  by (simp add: frame_def)

text \<open>add_callback: after the allocation only steps that keep counter and registry.\<close>

lemma add_callback_frame:
  assumes "callable callback" "index = PNone"
  shows "frame (self\<lparr>cb_count := Suc (cb_count self),
                      callbacks := AList.update (cb_count self) (callback, kw) (callbacks self)\<rparr>)
           (snd (add_callback E callback index run_now with_ctrlvars kw self))"
  unfolding add_callback_def Let_def
  apply (simp only: assms simp_thms if_False if_True)
  apply (intro frame_intros frame_step)
  apply (simp_all add: frame_step)
  done

lemma add_callback_reject:
  "\<not> (callable callback \<and> index = PNone)
   \<Longrightarrow> add_callback E callback index run_now with_ctrlvars kw self = (Inl CaprotoValueError, self)"
  by (auto simp: add_callback_def)

lemma fst_bind_Inr:
  assumes "fst (case m of (Inl e, s) \<Rightarrow> (Inl e, s) | (Inr x, s) \<Rightarrow> g x s) = Inr i"
  obtains x where "fst (g x (snd m)) = Inr i"
  using assms by (cases m; cases "fst m") auto

lemma add_callback_index:
  assumes "fst (add_callback E callback index run_now with_ctrlvars kw self) = Inr i"
  shows "i = cb_count self"
proof (cases "callable callback \<and> index = PNone")
  case False
  from add_callback_reject [OF this] assms show ?thesis by simp
next
  case True
  with assms show ?thesis
    unfolding add_callback_def Let_def
    apply (simp only: simp_thms if_False if_True)
    apply (erule fst_bind_Inr)+
    apply simp
    done
qed

lemma apply_op_count:
  "apply_op E op1 self = (r, s)
   \<Longrightarrow> cb_count self \<le> cb_count s \<and> (\<forall>i. r = Some i \<longrightarrow> i = cb_count self \<and> i < cb_count s)"
proof (cases op1)
  case (Add_callback callback index run_now with_ctrlvars kw)
  assume a: "apply_op E op1 self = (r, s)"
  show ?thesis
  proof (cases "callable callback \<and> index = PNone")
    case True
    from add_callback_frame [of callback index self kw E run_now with_ctrlvars] True
      add_callback_index [of E callback index run_now with_ctrlvars kw self]
    have "cb_count (snd (add_callback E callback index run_now with_ctrlvars kw self))
          = Suc (cb_count self)"
      and "\<forall>i. fst (add_callback E callback index run_now with_ctrlvars kw self) = Inr i
               \<longrightarrow> i = cb_count self"
      by (auto dest: frame_cb_count)
    with a Add_callback show ?thesis
      by (auto split: prod.splits sum.splits)
  next
    case False
    from add_callback_reject [OF this] a Add_callback show ?thesis
      by auto
  qed
next
  case (Remove_callback x2)
  assume "apply_op E op1 self = (r, s)"
  with Remove_callback show ?thesis by (auto simp: remove_callback_def)
next
  case Clear_callbacks
  assume "apply_op E op1 self = (r, s)"
  with Clear_callbacks show ?thesis by (auto simp: clear_callbacks_def)
next
  case Run_callbacks
  assume "apply_op E op1 self = (r, s)"
  with Run_callbacks frame_run_callbacks [of self self E] show ?thesis
    by (auto dest: frame_cb_count)
next
  case (Update cmd)
  assume "apply_op E op1 self = (r, s)"
  with Update frame_on_changes [of self self E cmd] show ?thesis
    by (auto dest: frame_cb_count)
qed

lemma run_ops_indices:
  "run_ops E ops self = (is, s)
   \<Longrightarrow> cb_count self \<le> cb_count s \<and> sorted_wrt (<) is
       \<and> (\<forall>i \<in> set is. cb_count self \<le> i \<and> i < cb_count s)"
proof (induction ops arbitrary: self "is" s)
  case Nil
  then show ?case by simp
next
  case (Cons op1 ops)
  obtain r s1 where a: "apply_op E op1 self = (r, s1)" by (cases "apply_op E op1 self")
  obtain rs s2 where b: "run_ops E ops s1 = (rs, s2)" by (cases "run_ops E ops s1")
  from Cons.prems a b have c: "is = (case r of None \<Rightarrow> rs | Some i \<Rightarrow> i # rs)" "s = s2"
    by simp_all
  note ih = Cons.IH [OF b]
  note st = apply_op_count [OF a]
  show ?case
  proof (cases r)
    case None
    with c ih st show ?thesis by auto
  next
    case (Some i)
    with c ih st show ?thesis by fastforce
  qed
qed

lemma run_callback_quiet:
  assumes "\<forall>tr f. call_user E tr f = None"
  shows "run_callback E i s = (Inr (), s\<lparr>trace := trace s @ expected_call s i\<rparr>)"
  using assms
  by (auto simp: run_callback_def expected_call_def invoke_def Let_def split: option.splits)

lemma expected_call_trace [simp]:
  "expected_call (s\<lparr>trace := t\<rparr>) = expected_call s"
  by (rule ext) (simp add: expected_call_def split: option.splits prod.splits)

lemma run_callbacks_loop_quiet:
  assumes "\<forall>tr f. call_user E tr f = None"
  shows "run_callbacks_loop E is s
         = (Inr (), s\<lparr>trace := trace s @ concat (map (expected_call s) is)\<rparr>)"
proof (induction "is" arbitrary: s)
  case Nil
  then show ?case by simp
next
  case (Cons i "is")
  show ?case
    by (simp add: run_callback_quiet [OF assms] Cons)
qed

lemma demo_ops_run:
  "fst (run_ops demo_env demo_ops demo_pv) = [0, 1, 2, 3]"
  "callbacks (snd (run_ops demo_env demo_ops demo_pv))
   = [(2, PFunc 3, Map.empty), (3, PFunc 4, Map.empty)]"
  "args (snd (run_ops demo_env demo_ops demo_pv)) = args demo_pv"
  "trace (snd (run_ops demo_env demo_ops demo_pv)) = []"
  by (simp_all add: demo_ops_def demo_pv_eq add_callback_def connected_def
      check_auto_monitor_sub_def remove_callback_def clear_callbacks_def demo_channel_def
      Let_def)

text \<open>
  What holds of the registry on every handle. The indices that successive calls of
  \<^verbatim>\<open>add_callback\<close> return increase strictly, whatever removals, clearings, dispatches
  and monitor updates come in between: every index that a sequence of operations returns
  is at least the counter of the handle before the sequence and below the counter after
  it. A successful \<^verbatim>\<open>add_callback\<close> returns the counter, advances it by one and stores
  the callable with its keyword arguments under the index; \<^verbatim>\<open>remove_callback\<close> and
  \<^verbatim>\<open>clear_callbacks\<close> leave the counter alone. When no callable raises,
  \<^verbatim>\<open>run_callbacks\<close> makes the invocations of the registered indices in ascending order
  and nothing else, and every invocation is built from the cache of the handle as it was
  when the dispatch began.
\<close>

lemma registry_indices_and_dispatch:
  "sorted_wrt (<) (fst (run_ops E ops self))
   \<and> (\<forall>i \<in> set (fst (run_ops E ops self)).
         cb_count self \<le> i \<and> i < cb_count (snd (run_ops E ops self)))
   \<and> (\<forall>i. fst (add_callback E callback index run_now with_ctrlvars kw self) = Inr i
         \<longrightarrow> i = cb_count self
             \<and> cb_count (snd (add_callback E callback index run_now with_ctrlvars kw self))
                 = Suc i
             \<and> map_of (callbacks (snd (add_callback E callback index run_now with_ctrlvars
                                         kw self))) i = Some (callback, kw))
   \<and> cb_count (remove_callback j self) = cb_count self
   \<and> cb_count (clear_callbacks self) = cb_count self
   \<and> ((\<forall>tr f. call_user E tr f = None)
        \<longrightarrow> run_callbacks E self
            = (Inr (), self\<lparr>trace := trace self
                 @ concat (map (expected_call self) (sort (map fst (callbacks self))))\<rparr>))
   \<and> sorted (sort (map fst (callbacks self)))
   \<and> set (sort (map fst (callbacks self))) = fst ` set (callbacks self)
   \<and> (distinct (map fst (callbacks self))
        \<longrightarrow> sorted_wrt (<) (sort (map fst (callbacks self))))"
proof (intro conjI allI impI ballI)
  obtain rs s where r: "run_ops E ops self = (rs, s)" by (cases "run_ops E ops self")
  note ri = run_ops_indices [OF r]
  show "sorted_wrt (<) (fst (run_ops E ops self))"
    using ri by (simp add: r)
  show "cb_count self \<le> i" if "i \<in> set (fst (run_ops E ops self))" for i
    using ri that by (simp add: r)
  show "i < cb_count (snd (run_ops E ops self))" if "i \<in> set (fst (run_ops E ops self))" for i
    using ri that by (simp add: r)
next
  fix i
  assume a: "fst (add_callback E callback index run_now with_ctrlvars kw self) = Inr i"
  show i: "i = cb_count self"
    using a by (rule add_callback_index)
  have c: "callable callback \<and> index = PNone"
    using a add_callback_reject [of callback index E run_now with_ctrlvars kw self]
    by fastforce
  note f = add_callback_frame [of callback index self kw E run_now with_ctrlvars]
  show "cb_count (snd (add_callback E callback index run_now with_ctrlvars kw self)) = Suc i"
    using f c i by (auto dest: frame_cb_count)
  show "map_of (callbacks (snd (add_callback E callback index run_now with_ctrlvars kw self))) i
        = Some (callback, kw)"
    using f c i by (auto dest!: frame_callbacks simp: update_conv')
next
  show "cb_count (remove_callback j self) = cb_count self"
    by (simp add: remove_callback_def)
  show "cb_count (clear_callbacks self) = cb_count self"
    by (simp add: clear_callbacks_def)
  show "run_callbacks E self
            = (Inr (), self\<lparr>trace := trace self
                 @ concat (map (expected_call self) (sort (map fst (callbacks self))))\<rparr>)"
    if "\<forall>tr f. call_user E tr f = None"
    unfolding run_callbacks_def by (rule run_callbacks_loop_quiet [OF that])
  show "sorted (sort (map fst (callbacks self)))"
    by simp
  show "set (sort (map fst (callbacks self))) = fst ` set (callbacks self)"
    by simp
  show "sorted_wrt (<) (sort (map fst (callbacks self)))"
    if "distinct (map fst (callbacks self))"
    using that by (simp add: strict_sorted_iff)
qed

lemma registry_indices_and_dispatch_example:
  "sorted_wrt (<) [0, 1, 2, 3 :: nat]
   \<and> fst (run_ops demo_env demo_ops demo_pv) = [0, 1, 2, 3]
   \<and> map call_info
       (trace (snd (run_callbacks demo_env (snd (run_ops demo_env demo_ops demo_pv)))))
     = [(PFunc 3, Some (PTuple [PInt 2, PSelf])), (PFunc 4, Some (PTuple [PInt 3, PSelf]))]"
proof -
  note t = registry_indices_and_dispatch [where E = demo_env and ops = demo_ops and self = demo_pv]
  note u = registry_indices_and_dispatch [where E = demo_env
      and self = "snd (run_ops demo_env demo_ops demo_pv)"]
  have q: "\<forall>tr f. call_user demo_env tr f = None"
    by (simp add: demo_defs)
  from t have 1: "sorted_wrt (<) [0, 1, 2, 3 :: nat]"
    unfolding demo_ops_run by blast
  from u q have "run_callbacks demo_env (snd (run_ops demo_env demo_ops demo_pv))
      = (Inr (), snd (run_ops demo_env demo_ops demo_pv)
           \<lparr>trace := trace (snd (run_ops demo_env demo_ops demo_pv))
              @ concat (map (expected_call (snd (run_ops demo_env demo_ops demo_pv)))
                  (sort (map fst (callbacks (snd (run_ops demo_env demo_ops demo_pv))))))\<rparr>)"
    by blast
  then have 3: "map call_info
       (trace (snd (run_callbacks demo_env (snd (run_ops demo_env demo_ops demo_pv)))))
     = [(PFunc 3, Some (PTuple [PInt 2, PSelf])), (PFunc 4, Some (PTuple [PInt 3, PSelf]))]"
    by (simp add: demo_ops_run expected_call_def)
  from 1 3 demo_ops_run(1) show ?thesis by simp
qed


text \<open>
  C8: the indices that \<^verbatim>\<open>add_callback\<close> assigns are not always unused. The
  constructor registers its callbacks under the positions \<open>0, 1, ...\<close> and leaves the
  counter at zero, so on a handle built with one callback the first \<^verbatim>\<open>add_callback\<close>
  returns 0, the index the constructor's callback has, and the new callable takes its
  place: the registry holds one callback afterwards, and index 0 has been used twice in
  the lifetime of the handle.
\<close>

theorem C8_constructor_index_reused:
  "map_of (callbacks callback_pv) 0 = Some (PFunc 1, Map.empty)
   \<and> fst (add_callback demo_env (PFunc 2) PNone False False Map.empty callback_pv) = Inr 0
   \<and> map_of (callbacks (snd (add_callback demo_env (PFunc 2) PNone False False Map.empty
                              callback_pv))) 0
     = Some (PFunc 2, Map.empty)
   \<and> map fst (callbacks (snd (add_callback demo_env (PFunc 2) PNone False False Map.empty
                              callback_pv)))
     = [0]"
  by (simp add: callback_pv_def PV_init_def idle_channel_def init_callbacks_def
      add_callback_def connected_def Let_def)


section \<open>Properties of handle equality\<close>

text \<open>
  C10: equality on PV handles is never true. \<^verbatim>\<open>a == b\<close> is false for every pair of
  handles, and for a handle and itself: the relation is not reflexive.
\<close>

theorem C10_eq_never_true:
  "PV_eq a b = False \<and> PV_eq a a = False"
  by (simp add: PV_eq_def)

end
